theory Spec2Isabelle
  imports Main
begin

section \<open>Data model\<close>

text \<open>
  The tables of the application as the two server files use them. The column lists come
  from the project's overview; the shared schema module that declares the column types
  is outside these two files, so each column gets the type the code reads it at. Ids are
  the integer keys of the tables.
\<close>

datatype Role = Admin | SecondaryAdmin | Agent

datatype Permission =
    viewRecords | editRecords | deleteRecords | addRecords | exportRecords
  | viewAgents | createAgents | editAgents | manageCustomColumns | viewStats

text \<open>
  A permissions map is the stored JSON object: keys are permission names, and a key may be
  missing. The column itself may be null.
\<close>

type_synonym PermissionsMap = "(Permission \<times> bool) list"

definition ALL_PERMISSIONS :: "Permission list" where
  "ALL_PERMISSIONS =
     [viewRecords, editRecords, deleteRecords, addRecords, exportRecords,
      viewAgents, createAgents, editAgents, manageCustomColumns, viewStats]"

record User =
  userId :: int
  username :: string
  password :: string
  plainPassword :: "string option"
  fullName :: string
  role :: Role
  permissions :: "PermissionsMap option"
  isActive :: bool

text \<open>
  A request carries the session's user (absent when nobody is logged in), the id of the
  path and the JSON body. Passport's \<open>req.isAuthenticated()\<close> is true exactly when the
  session has a user.
\<close>

record 'b Request =
  user :: "User option"
  params_id :: int
  body :: 'b

text \<open>
  The first issue of a ZodError: its message and its path. The route handlers answer with
  the message and the path joined by dots.
\<close>

datatype ZodError = ZodError (message: string) (path: "string list")

text \<open>
  What a handler answers: \<open>res.status(n).send()\<close>, \<open>res.status(n).json(v)\<close>,
  \<open>res.status(n).json({message})\<close> and \<open>res.status(n).json({message, field})\<close>.
\<close>

datatype 'a Response =
    Send nat
  | Json nat 'a
  | JsonMessage nat string
  | JsonFieldError nat string string

fun status :: "'a Response \<Rightarrow> nat" where
  "status (Send n) = n"
| "status (Json n v) = n"
| "status (JsonMessage n m) = n"
| "status (JsonFieldError n m f) = n"

section \<open>Authorization helpers of the route module\<close>

definition isAuthenticated :: "'b Request \<Rightarrow> bool" where
  "isAuthenticated req = (user req \<noteq> None)"

definition userRole :: "'b Request \<Rightarrow> Role option" where
  "userRole req = map_option role (user req)"

definition isAdmin :: "'b Request \<Rightarrow> bool" where
  "isAdmin req = (isAuthenticated req \<and> userRole req = Some Admin)"

definition isAdminOrSecondary :: "'b Request \<Rightarrow> bool" where
  "isAdminOrSecondary req =
     (isAuthenticated req \<and> (userRole req = Some Admin \<or> userRole req = Some SecondaryAdmin))"

definition hasPermission :: "'b Request \<Rightarrow> Permission \<Rightarrow> bool" where
  "hasPermission req permission =
     (if \<not> isAuthenticated req then False
      else if userRole req = Some Admin then True
      else if userRole req = Some SecondaryAdmin then
        (case user req of
           None \<Rightarrow> False
         | Some u \<Rightarrow>
             (case permissions u of
                None \<Rightarrow> False
              | Some perms \<Rightarrow> map_of perms permission = Some True))
      else False)"

section \<open>The storage layer\<close>

text \<open>
  What the storage layer takes from outside the two files: the password hash of the
  authentication module, the clock, the server's local time zone (a fixed offset from
  UTC, in milliseconds east), the \<open>Date\<close> constructor on strings (\<open>None\<close> is an invalid
  date) and the column defaults of the users table.
\<close>

record Env =
  hashPassword :: "string \<Rightarrow> string"
  now :: int
  localTZA :: int
  parseDate :: "string \<Rightarrow> int option"
  defaultRole :: Role
  defaultIsActive :: bool

datatype FieldType = TextField | NumberField | SelectField

record CustomColumn =
  columnId :: int
  name :: string
  fieldType :: FieldType
  isRequired :: bool
  options :: "string list option"
  columnIsActive :: bool
  columnCreatedAt :: "int option"

text \<open>
  A row of the records table, with the columns the two files read. Timestamps are time
  values of \<open>Date\<close>: milliseconds since the epoch. The text columns and \<open>createdAt\<close> may
  be null.
\<close>

record RecordItem =
  recordId :: int
  collectedBy :: int
  landlordName :: "string option"
  town :: "string option"
  area :: "string option"
  customFields :: "(string \<times> string) list"
  createdAt :: "int option"
  updatedAt :: "int option"

text \<open>
  The database: its three tables in row order and the next value of each serial key.
  Constraints of the schema (unique names, foreign keys) are not part of it.
\<close>

record Db =
  users :: "User list"
  records :: "RecordItem list"
  customColumns :: "CustomColumn list"
  nextUserId :: int
  nextRecordId :: int

subsection \<open>Users\<close>

record InsertUser =
  ins_username :: string
  ins_password :: string
  ins_fullName :: string
  ins_role :: "Role option"
  ins_permissions :: "PermissionsMap option"
  ins_isActive :: "bool option"

text \<open>An update request names the columns to set; an absent field leaves its column.\<close>

record UpdateUserRequest =
  upd_username :: "string option"
  upd_password :: "string option"
  upd_fullName :: "string option"
  upd_role :: "Role option"
  upd_permissions :: "PermissionsMap option"
  upd_isActive :: "bool option"

definition getUser :: "Db \<Rightarrow> int \<Rightarrow> User option" where
  "getUser db i = find (\<lambda>u. userId u = i) (users db)"

definition getUserByUsername :: "Db \<Rightarrow> string \<Rightarrow> User option" where
  "getUserByUsername db n = find (\<lambda>u. username u = n) (users db)"

definition createUser :: "Env \<Rightarrow> Db \<Rightarrow> InsertUser \<Rightarrow> User \<times> Db" where
  "createUser env db insertUser =
     (let plainPwd = ins_password insertUser;
          hashedPassword = hashPassword env (ins_password insertUser);
          row = \<lparr> userId = nextUserId db,
                  username = ins_username insertUser,
                  password = hashedPassword,
                  plainPassword = Some plainPwd,
                  fullName = ins_fullName insertUser,
                  role = (case ins_role insertUser of None \<Rightarrow> defaultRole env | Some r \<Rightarrow> r),
                  permissions = ins_permissions insertUser,
                  isActive =
                    (case ins_isActive insertUser of None \<Rightarrow> defaultIsActive env | Some a \<Rightarrow> a) \<rparr>
      in (row, db\<lparr>users := users db @ [row], nextUserId := nextUserId db + 1\<rparr>))"

text \<open>
  \<open>set(updates)\<close> on one row. The second argument is the \<open>plainPassword\<close> property that
  \<open>updateUser\<close> adds to the request object when it has a password.
\<close>

definition setUser :: "UpdateUserRequest \<Rightarrow> string option \<Rightarrow> User \<Rightarrow> User" where
  "setUser updates plain u =
     u\<lparr> username := (case upd_username updates of None \<Rightarrow> username u | Some v \<Rightarrow> v),
        password := (case upd_password updates of None \<Rightarrow> password u | Some v \<Rightarrow> v),
        plainPassword := (case plain of None \<Rightarrow> plainPassword u | Some v \<Rightarrow> Some v),
        fullName := (case upd_fullName updates of None \<Rightarrow> fullName u | Some v \<Rightarrow> v),
        role := (case upd_role updates of None \<Rightarrow> role u | Some v \<Rightarrow> v),
        permissions := (case upd_permissions updates of None \<Rightarrow> permissions u | Some v \<Rightarrow> Some v),
        isActive := (case upd_isActive updates of None \<Rightarrow> isActive u | Some v \<Rightarrow> v) \<rparr>"

text \<open>
  \<open>if (updates.password)\<close> is the truthiness of a string: present and not empty. The
  result is the first updated row, or nothing (\<open>undefined\<close>) when no row has the id.
\<close>

definition truthyString :: "string option \<Rightarrow> bool" where
  "truthyString s = (case s of None \<Rightarrow> False | Some v \<Rightarrow> v \<noteq> [])"

definition updateUser :: "Env \<Rightarrow> Db \<Rightarrow> int \<Rightarrow> UpdateUserRequest \<Rightarrow> User option \<times> Db" where
  "updateUser env db i updates =
     (let plain = (if truthyString (upd_password updates) then upd_password updates else None);
          updates' =
            (if truthyString (upd_password updates)
             then updates\<lparr>upd_password := map_option (hashPassword env) (upd_password updates)\<rparr>
             else updates);
          rows = map (\<lambda>u. if userId u = i then setUser updates' plain u else u) (users db)
      in (find (\<lambda>u. userId u = i) rows, db\<lparr>users := rows\<rparr>))"

definition getAgents :: "Db \<Rightarrow> User list" where
  "getAgents db = filter (\<lambda>u. role u = Agent) (users db)"

definition getSecondaryAdmins :: "Db \<Rightarrow> User list" where
  "getSecondaryAdmins db = filter (\<lambda>u. role u = SecondaryAdmin) (users db)"

subsection \<open>Records\<close>

text \<open>
  The columns of a record other than its key and its collector, as the request schema
  hands them over; \<open>InsertRecord\<close> adds the collector.
\<close>

record RecordInput =
  in_landlordName :: "string option"
  in_town :: "string option"
  in_area :: "string option"
  in_customFields :: "(string \<times> string) list"
  in_createdAt :: "int option"
  in_updatedAt :: "int option"

type_synonym InsertRecord = "RecordInput \<times> int"

record UpdateRecordRequest =
  upr_collectedBy :: "int option"
  upr_landlordName :: "string option"
  upr_town :: "string option"
  upr_area :: "string option"
  upr_customFields :: "(string \<times> string) list option"
  upr_createdAt :: "int option"

definition getRecord :: "Db \<Rightarrow> int \<Rightarrow> RecordItem option" where
  "getRecord db i = find (\<lambda>r. recordId r = i) (records db)"

definition createRecord :: "Db \<Rightarrow> InsertRecord \<Rightarrow> RecordItem \<times> Db" where
  "createRecord db insertRecord =
     (let input = fst insertRecord;
          row = \<lparr> recordId = nextRecordId db,
                  collectedBy = snd insertRecord,
                  landlordName = in_landlordName input,
                  town = in_town input,
                  area = in_area input,
                  customFields = in_customFields input,
                  createdAt = in_createdAt input,
                  updatedAt = in_updatedAt input \<rparr>
      in (row, db\<lparr>records := records db @ [row], nextRecordId := nextRecordId db + 1\<rparr>))"

definition setRecord :: "UpdateRecordRequest \<Rightarrow> int \<Rightarrow> RecordItem \<Rightarrow> RecordItem" where
  "setRecord updates t r =
     r\<lparr> collectedBy := (case upr_collectedBy updates of None \<Rightarrow> collectedBy r | Some v \<Rightarrow> v),
        landlordName :=
          (case upr_landlordName updates of None \<Rightarrow> landlordName r | Some v \<Rightarrow> Some v),
        town := (case upr_town updates of None \<Rightarrow> town r | Some v \<Rightarrow> Some v),
        area := (case upr_area updates of None \<Rightarrow> area r | Some v \<Rightarrow> Some v),
        customFields :=
          (case upr_customFields updates of None \<Rightarrow> customFields r | Some v \<Rightarrow> v),
        createdAt := (case upr_createdAt updates of None \<Rightarrow> createdAt r | Some v \<Rightarrow> Some v),
        updatedAt := Some t \<rparr>"

definition updateRecord ::
  "Env \<Rightarrow> Db \<Rightarrow> int \<Rightarrow> UpdateRecordRequest \<Rightarrow> RecordItem option \<times> Db" where
  "updateRecord env db i updates =
     (let rows = map (\<lambda>r. if recordId r = i then setRecord updates (now env) r else r) (records db)
      in (find (\<lambda>r. recordId r = i) rows, db\<lparr>records := rows\<rparr>))"

definition deleteRecord :: "Db \<Rightarrow> int \<Rightarrow> Db" where
  "deleteRecord db i = db\<lparr>records := filter (\<lambda>r. recordId r \<noteq> i) (records db)\<rparr>"

subsection \<open>Record filters\<close>

text \<open>
  SQL \<open>LIKE\<close> as PostgreSQL matches it: \<open>%\<close> stands for any run of characters, \<open>_\<close> for
  one character, and a backslash takes the next pattern character literally. The first
  argument is the pattern. A pattern that ends in a lone backslash is an error in
  PostgreSQL; the patterns built below end in \<open>%\<close>, so the case is never reached.
\<close>

fun like :: "string \<Rightarrow> string \<Rightarrow> bool" where
  "like [] s = (s = [])"
| "like (p # ps) [] = (p = CHR ''%'' \<and> like ps [])"
| "like (p # ps) (c # cs) =
     (if p = CHR ''%'' then like ps (c # cs) \<or> like (p # ps) cs
      else if p = CHR ''_'' then like ps cs
      else if p = CHR 0x5C then (case ps of [] \<Rightarrow> False | q # qs \<Rightarrow> q = c \<and> like qs cs)
      else p = c \<and> like ps cs)"

text \<open>
  \<open>ILIKE\<close> puts the pattern and the text in lower case, in the locale of the database, and
  matches them with \<open>LIKE\<close>. The lower-casing of the database is the parameter \<open>lower\<close> of
  the functions below; \<open>lowerASCII\<close>, which folds the letters A to Z, serves the concrete
  inputs.
\<close>

definition lowerChar :: "char \<Rightarrow> char" where
  "lowerChar c =
     (let n = (of_char c :: nat) in if 65 \<le> n \<and> n \<le> 90 then char_of (n + 32) else c)"

definition lowerASCII :: "string \<Rightarrow> string" where
  "lowerASCII s = map lowerChar s"

definition ilike :: "(string \<Rightarrow> string) \<Rightarrow> string option \<Rightarrow> string \<Rightarrow> bool" where
  "ilike lower column pattern =
     (case column of
        None \<Rightarrow> False
      | Some v \<Rightarrow> like (lower pattern) (lower v))"

record RecordFilters =
  flt_agentId :: "int option"
  flt_search :: "string option"
  flt_startDate :: "int option"
  flt_endDate :: "int option"
  flt_town :: "string option"
  flt_area :: "string option"

text \<open>
  The list \<open>conditions\<close> that \<open>getRecords\<close> builds: one predicate on a row for each filter
  whose value is truthy (a number other than 0, a string other than the empty one, any
  date object). A comparison with a null column is not true, so the row is left out.
\<close>

definition conditions ::
  "(string \<Rightarrow> string) \<Rightarrow> RecordFilters option \<Rightarrow> (RecordItem \<Rightarrow> bool) list" where
  "conditions lower filters =
     (case filters of
        None \<Rightarrow> []
      | Some f \<Rightarrow>
          (case flt_agentId f of
             None \<Rightarrow> []
           | Some a \<Rightarrow> if a = 0 then [] else [\<lambda>r. collectedBy r = a])
          @ (case flt_search f of
               None \<Rightarrow> []
             | Some s \<Rightarrow>
                 if s = [] then [] else [\<lambda>r. ilike lower (landlordName r) (''%'' @ s @ ''%'')])
          @ (case flt_startDate f of
               None \<Rightarrow> []
             | Some d \<Rightarrow> [\<lambda>r. case createdAt r of None \<Rightarrow> False | Some c \<Rightarrow> c \<ge> d])
          @ (case flt_endDate f of
               None \<Rightarrow> []
             | Some d \<Rightarrow> [\<lambda>r. case createdAt r of None \<Rightarrow> False | Some c \<Rightarrow> c \<le> d])
          @ (case flt_town f of
               None \<Rightarrow> []
             | Some s \<Rightarrow> if s = [] then [] else [\<lambda>r. ilike lower (town r) (''%'' @ s @ ''%'')])
          @ (case flt_area f of
               None \<Rightarrow> []
             | Some s \<Rightarrow> if s = [] then [] else [\<lambda>r. ilike lower (area r) (''%'' @ s @ ''%'')]))"

text \<open>
  \<open>ORDER BY created_at DESC\<close>: later rows first, and PostgreSQL puts nulls first in a
  descending order. Rows with equal keys keep their table order here (PostgreSQL leaves
  their order open).
\<close>

definition descLe :: "int option \<Rightarrow> int option \<Rightarrow> bool" where
  "descLe a b =
     (case a of
        None \<Rightarrow> True
      | Some x \<Rightarrow> (case b of None \<Rightarrow> False | Some y \<Rightarrow> x \<ge> y))"

fun insertDesc :: "RecordItem \<Rightarrow> RecordItem list \<Rightarrow> RecordItem list" where
  "insertDesc r [] = [r]"
| "insertDesc r (x # xs) =
     (if descLe (createdAt r) (createdAt x) then r # x # xs else x # insertDesc r xs)"

definition orderByCreatedAtDesc :: "RecordItem list \<Rightarrow> RecordItem list" where
  "orderByCreatedAtDesc rows = foldr insertDesc rows []"

definition getRecords ::
  "(string \<Rightarrow> string) \<Rightarrow> Db \<Rightarrow> RecordFilters option \<Rightarrow> RecordItem list" where
  "getRecords lower db filters =
     orderByCreatedAtDesc
       (filter (\<lambda>r. list_all (\<lambda>c. c r) (conditions lower filters)) (records db))"

subsection \<open>Dates\<close>

text \<open>
  The \<open>Date\<close> operations the statistics use, after the abstract operations of the
  ECMAScript specification. A date is its time value, an integer number of milliseconds
  since the epoch; division rounds down. The range check \<open>TimeClip\<close> is left out: the
  timestamps of records are far inside the range of \<open>Date\<close>.
\<close>

definition msPerDay :: int where
  "msPerDay = 86400000"

definition Day :: "int \<Rightarrow> int" where
  "Day t = t div msPerDay"

definition TimeWithinDay :: "int \<Rightarrow> int" where
  "TimeWithinDay t = t mod msPerDay"

definition DaysInYear :: "int \<Rightarrow> int" where
  "DaysInYear y =
     (if y mod 4 \<noteq> 0 then 365
      else if y mod 100 \<noteq> 0 then 366
      else if y mod 400 \<noteq> 0 then 365
      else 366)"

definition DayFromYear :: "int \<Rightarrow> int" where
  "DayFromYear y =
     365 * (y - 1970) + (y - 1969) div 4 - (y - 1901) div 100 + (y - 1601) div 400"

text \<open>
  The year of a day number: the largest \<open>y\<close> with \<open>DayFromYear y \<le> d\<close>. The estimate from
  the mean length of a year is off by at most one.
\<close>

definition YearFromDay :: "int \<Rightarrow> int" where
  "YearFromDay d =
     (let y0 = 1970 + (400 * d) div 146097
      in if d < DayFromYear y0 then y0 - 1
         else if DayFromYear (y0 + 1) \<le> d then y0 + 1
         else y0)"

definition YearFromTime :: "int \<Rightarrow> int" where
  "YearFromTime t = YearFromDay (Day t)"

definition InLeapYear :: "int \<Rightarrow> int" where
  "InLeapYear t = (if DaysInYear (YearFromTime t) = 366 then 1 else 0)"

definition DayWithinYear :: "int \<Rightarrow> int" where
  "DayWithinYear t = Day t - DayFromYear (YearFromTime t)"

text \<open>The number of days of a year before its month \<open>m\<close> (0 to 11); \<open>l\<close> is 1 in a leap year.\<close>

definition monthStart :: "int \<Rightarrow> int \<Rightarrow> int" where
  "monthStart l m =
     (if m = 0 then 0 else if m = 1 then 31 else if m = 2 then 59 + l
      else if m = 3 then 90 + l else if m = 4 then 120 + l else if m = 5 then 151 + l
      else if m = 6 then 181 + l else if m = 7 then 212 + l else if m = 8 then 243 + l
      else if m = 9 then 273 + l else if m = 10 then 304 + l else 334 + l)"

definition MonthFromTime :: "int \<Rightarrow> int" where
  "MonthFromTime t =
     (let d = DayWithinYear t; l = InLeapYear t
      in if d < 31 then 0 else if d < 59 + l then 1 else if d < 90 + l then 2
         else if d < 120 + l then 3 else if d < 151 + l then 4 else if d < 181 + l then 5
         else if d < 212 + l then 6 else if d < 243 + l then 7 else if d < 273 + l then 8
         else if d < 304 + l then 9 else if d < 334 + l then 10 else 11)"

definition DateFromTime :: "int \<Rightarrow> int" where
  "DateFromTime t = DayWithinYear t - monthStart (InLeapYear t) (MonthFromTime t) + 1"

definition WeekDay :: "int \<Rightarrow> int" where
  "WeekDay t = (Day t + 4) mod 7"

definition HourFromTime :: "int \<Rightarrow> int" where
  "HourFromTime t = (t div 3600000) mod 24"

definition MinFromTime :: "int \<Rightarrow> int" where
  "MinFromTime t = (t div 60000) mod 60"

definition SecFromTime :: "int \<Rightarrow> int" where
  "SecFromTime t = (t div 1000) mod 60"

definition msFromTime :: "int \<Rightarrow> int" where
  "msFromTime t = t mod 1000"

definition LocalTime :: "Env \<Rightarrow> int \<Rightarrow> int" where
  "LocalTime env t = t + localTZA env"

definition UTC :: "Env \<Rightarrow> int \<Rightarrow> int" where
  "UTC env t = t - localTZA env"

definition MakeDay :: "int \<Rightarrow> int \<Rightarrow> int \<Rightarrow> int" where
  "MakeDay year month dt =
     (let ym = year + month div 12; mn = month mod 12
      in DayFromYear ym + monthStart (if DaysInYear ym = 366 then 1 else 0) mn + dt - 1)"

definition MakeDate :: "int \<Rightarrow> int \<Rightarrow> int" where
  "MakeDate dy tm = dy * msPerDay + tm"

definition getFullYear :: "Env \<Rightarrow> int \<Rightarrow> int" where
  "getFullYear env d = YearFromTime (LocalTime env d)"

definition getMonth :: "Env \<Rightarrow> int \<Rightarrow> int" where
  "getMonth env d = MonthFromTime (LocalTime env d)"

definition getDate :: "Env \<Rightarrow> int \<Rightarrow> int" where
  "getDate env d = DateFromTime (LocalTime env d)"

definition getDay :: "Env \<Rightarrow> int \<Rightarrow> int" where
  "getDay env d = WeekDay (LocalTime env d)"

text \<open>\<open>d.setDate(dt)\<close>: the new time value of the date.\<close>

definition setDate :: "Env \<Rightarrow> int \<Rightarrow> int \<Rightarrow> int" where
  "setDate env d dt =
     (let t = LocalTime env d;
          newDate = MakeDate (MakeDay (YearFromTime t) (MonthFromTime t) dt) (TimeWithinDay t)
      in UTC env newDate)"

subsection \<open>Strings\<close>

definition digitChar :: "nat \<Rightarrow> char" where
  "digitChar n = char_of (48 + n)"

function showNat :: "nat \<Rightarrow> string" where
  "showNat n = (if n < 10 then [digitChar n] else showNat (n div 10) @ [digitChar (n mod 10)])"
  by pat_completeness auto
termination
  by (relation "measure (\<lambda>n. n)") auto

declare showNat.simps [simp del]

text \<open>\<open>String(n)\<close> on an integer.\<close>

definition showInt :: "int \<Rightarrow> string" where
  "showInt i = (if i < 0 then CHR ''-'' # showNat (nat (- i)) else showNat (nat i))"

definition padStart :: "nat \<Rightarrow> char \<Rightarrow> string \<Rightarrow> string" where
  "padStart n c s = replicate (n - length s) c @ s"

text \<open>
  \<open>toISOString\<close> writes the UTC fields of the date; a year outside 0 to 9999 is written
  with a sign and six digits.
\<close>

definition isoYear :: "int \<Rightarrow> string" where
  "isoYear y =
     (if 0 \<le> y \<and> y \<le> 9999 then padStart 4 (CHR ''0'') (showNat (nat y))
      else (if y < 0 then CHR ''-'' else CHR ''+'') # padStart 6 (CHR ''0'') (showNat (nat \<bar>y\<bar>)))"

definition pad2 :: "int \<Rightarrow> string" where
  "pad2 n = padStart 2 (CHR ''0'') (showNat (nat n))"

definition toISOString :: "int \<Rightarrow> string" where
  "toISOString t =
     isoYear (YearFromTime t) @ ''-'' @ pad2 (MonthFromTime t + 1) @ ''-'' @ pad2 (DateFromTime t)
     @ ''T'' @ pad2 (HourFromTime t) @ '':'' @ pad2 (MinFromTime t) @ '':'' @ pad2 (SecFromTime t)
     @ ''.'' @ padStart 3 (CHR ''0'') (showNat (nat (msFromTime t))) @ ''Z''"

text \<open>\<open>s.split('T')[0]\<close>: the part of the string before its first \<open>T\<close>.\<close>

definition splitT0 :: "string \<Rightarrow> string" where
  "splitT0 s = takeWhile (\<lambda>c. c \<noteq> CHR ''T'') s"

subsection \<open>Statistics\<close>

datatype Period = day | week | month

record AgentCount =
  agentId :: int
  agentName :: string
  count :: nat

record PeriodCount =
  date :: string
  periodCount :: nat

record Stats =
  totalRecords :: nat
  recordsPerAgent :: "AgentCount list"
  recordsByPeriod :: "PeriodCount list"

text \<open>
  The two counting objects of \<open>getStats\<close> are kept as lists of key and count in the order
  the keys were created. \<open>bump k obj\<close> is the assignment \<open>obj[k] = (obj[k] || 0) + 1\<close>: a key
  already there keeps its place.
\<close>

fun bump :: "'k \<Rightarrow> ('k \<times> nat) list \<Rightarrow> ('k \<times> nat) list" where
  "bump k [] = [(k, 1)]"
| "bump k ((k', v) # rest) = (if k = k' then (k', v + 1) # rest else (k', v) # bump k rest)"

text \<open>
  \<open>Object.entries\<close> lists the keys that are array indices (integers from 0 to
  \<open>2\<^sup>3\<^sup>2 - 2\<close>) first, in ascending order, and the other keys after them in the order of
  their creation. The keys of \<open>dateCounts\<close> all hold a hyphen, so none is an array index
  and its entries come in creation order.
\<close>

definition isArrayIndex :: "int \<Rightarrow> bool" where
  "isArrayIndex k = (0 \<le> k \<and> k < 4294967295)"

definition entriesInt :: "(int \<times> nat) list \<Rightarrow> (int \<times> nat) list" where
  "entriesInt obj =
     sort_key fst (filter (\<lambda>e. isArrayIndex (fst e)) obj)
     @ filter (\<lambda>e. \<not> isArrayIndex (fst e)) obj"

text \<open>
  The key of a record's bucket. The week branch copies the date, moves the copy back by
  the local day of the week with \<open>setDate\<close> and prints its UTC date; the month branch
  prints the local year and month; the day branch prints the UTC date.
\<close>

definition dateKey :: "Env \<Rightarrow> Period \<Rightarrow> int \<Rightarrow> string" where
  "dateKey env period d =
     (if period = week then
        (let startOfWeek = setDate env d (getDate env d - getDay env d)
         in ''W '' @ splitT0 (toISOString startOfWeek))
      else if period = month then
        showInt (getFullYear env d) @ ''-'' @ padStart 2 (CHR ''0'') (showInt (getMonth env d + 1))
      else splitT0 (toISOString d))"

text \<open>One turn of the loop over the records, on the pair of counting objects.\<close>

definition countRecord ::
  "Env \<Rightarrow> Period \<Rightarrow> RecordItem \<Rightarrow> (int \<times> nat) list \<times> (string \<times> nat) list
     \<Rightarrow> (int \<times> nat) list \<times> (string \<times> nat) list" where
  "countRecord env period r acc =
     (let agentCounts = bump (collectedBy r) (fst acc)
      in case createdAt r of
           None \<Rightarrow> (agentCounts, snd acc)
         | Some d \<Rightarrow> (agentCounts, bump (dateKey env period d) (snd acc)))"

text \<open>
  \<open>a.localeCompare(b) \<le> 0\<close>, taken as the comparison of the strings character by
  character; on the keys of one period, which differ in their digits only, the two agree.
  The sort of an array is stable.
\<close>

fun localeLe :: "string \<Rightarrow> string \<Rightarrow> bool" where
  "localeLe [] b = True"
| "localeLe (x # xs) [] = False"
| "localeLe (x # xs) (y # ys) =
     ((of_char x :: nat) < of_char y \<or> (x = y \<and> localeLe xs ys))"

fun insertByDate :: "PeriodCount \<Rightarrow> PeriodCount list \<Rightarrow> PeriodCount list" where
  "insertByDate e [] = [e]"
| "insertByDate e (x # xs) =
     (if localeLe (date e) (date x) then e # x # xs else x # insertByDate e xs)"

definition sortByDate :: "PeriodCount list \<Rightarrow> PeriodCount list" where
  "sortByDate es = foldr insertByDate es []"

text \<open>
  \<open>new Map(pairs)\<close>: a later pair with the same key replaces an earlier one.
\<close>

definition agentMapOf :: "User list \<Rightarrow> int \<Rightarrow> string option" where
  "agentMapOf agentList = map_of (rev (map (\<lambda>a. (userId a, fullName a)) agentList))"

text \<open>\<open>agentMap.get(id) || `Agent #${id}`\<close>: an empty name counts as no name.\<close>

definition agentNameOf :: "(int \<Rightarrow> string option) \<Rightarrow> int \<Rightarrow> string" where
  "agentNameOf agentMap i =
     (case agentMap i of
        None \<Rightarrow> ''Agent #'' @ showInt i
      | Some n \<Rightarrow> if n = [] then ''Agent #'' @ showInt i else n)"

definition getStats :: "Env \<Rightarrow> Db \<Rightarrow> Period option \<Rightarrow> Stats" where
  "getStats env db periodArg =
     (let period = (case periodArg of None \<Rightarrow> day | Some p \<Rightarrow> p);
          allRecords = records db;
          agentList = filter (\<lambda>u. role u = Agent) (users db);
          agentMap = agentMapOf agentList;
          counts = fold (countRecord env period) allRecords ([], []);
          agentCounts = fst counts;
          dateCounts = snd counts
      in \<lparr> totalRecords = length allRecords,
           recordsPerAgent =
             map (\<lambda>e. \<lparr> agentId = fst e, agentName = agentNameOf agentMap (fst e), count = snd e \<rparr>)
               (entriesInt agentCounts),
           recordsByPeriod =
             sortByDate (map (\<lambda>e. \<lparr> date = fst e, periodCount = snd e \<rparr>) dateCounts) \<rparr>)"

section \<open>The route handlers\<close>

text \<open>
  The JSON body of a record request, with the fields the handlers and the storage layer
  read. \<open>collectedBy\<close> is a JSON number when it is there. A date field holds a string, a
  number or, after \<open>coerceDates\<close>, a date object (\<open>None\<close> inside is an invalid date).
\<close>

datatype BodyValue = Str string | Num int | DateOf "int option"

record RecordBody =
  body_collectedBy :: "int option"
  body_landlordName :: "string option"
  body_town :: "string option"
  body_area :: "string option"
  body_customFields :: "(string \<times> string) list"
  body_gpsTimestamp :: "BodyValue option"
  body_createdAt :: "BodyValue option"
  body_updatedAt :: "BodyValue option"

definition coerceField :: "Env \<Rightarrow> BodyValue option \<Rightarrow> BodyValue option" where
  "coerceField env v = (case v of Some (Str s) \<Rightarrow> Some (DateOf (parseDate env s)) | _ \<Rightarrow> v)"

definition coerceDates :: "Env \<Rightarrow> RecordBody \<Rightarrow> RecordBody" where
  "coerceDates env b =
     b\<lparr> body_gpsTimestamp := coerceField env (body_gpsTimestamp b),
        body_createdAt := coerceField env (body_createdAt b),
        body_updatedAt := coerceField env (body_updatedAt b) \<rparr>"

text \<open>
  The request schemas come from the shared route module, outside the two server files:
  each \<open>parse\<close> either throws a ZodError or returns the input. The handlers are modelled
  for any such schemas. \<open>records_create_input\<close> is the create schema with \<open>collectedBy\<close>
  omitted, as the handler uses it.
\<close>

record 'u Api =
  records_create_input :: "RecordBody \<Rightarrow> ZodError + RecordInput"
  records_update_input :: "RecordBody \<Rightarrow> ZodError + UpdateRecordRequest"
  agents_create_input :: "'u \<Rightarrow> ZodError + InsertUser"
  agents_update_input :: "'u \<Rightarrow> ZodError + UpdateUserRequest"
  secondaryAdmins_create_input :: "'u \<Rightarrow> ZodError + InsertUser"
  secondaryAdmins_update_input :: "'u \<Rightarrow> ZodError + UpdateUserRequest"

fun joinDot :: "string list \<Rightarrow> string" where
  "joinDot [] = []"
| "joinDot [x] = x"
| "joinDot (x # y # ys) = x @ ''.'' @ joinDot (y # ys)"

text \<open>The answer of every handler to a ZodError.\<close>

definition zodResponse :: "ZodError \<Rightarrow> 'a Response" where
  "zodResponse err = JsonFieldError 400 (message err) (joinDot (path err))"

subsection \<open>Records\<close>

text \<open>
  \<open>POST\<close> of a record. The collector is the requesting user, unless an admin or a
  secondary admin sends a truthy \<open>collectedBy\<close>.
\<close>

definition recordsCreate ::
  "'u Api \<Rightarrow> Env \<Rightarrow> RecordBody Request \<Rightarrow> Db \<Rightarrow> RecordItem Response \<times> Db" where
  "recordsCreate api env req db =
     (case user req of
        None \<Rightarrow> (Send 401, db)
      | Some u \<Rightarrow>
          if role u \<noteq> Agent \<and> \<not> hasPermission req addRecords
          then (JsonMessage 403 ''No permission to add records'', db)
          else
            (case records_create_input api (coerceDates env (body req)) of
               Inl err \<Rightarrow> (zodResponse err, db)
             | Inr input \<Rightarrow>
                 (let collectedBy0 =
                        (case body_collectedBy (body req) of
                           None \<Rightarrow> userId u
                         | Some c \<Rightarrow> if isAdminOrSecondary req \<and> c \<noteq> 0 then c else userId u);
                      created = createRecord db (input, collectedBy0)
                  in (Json 201 (fst created), snd created))))"

definition recordsUpdate ::
  "'u Api \<Rightarrow> Env \<Rightarrow> RecordBody Request \<Rightarrow> Db \<Rightarrow> RecordItem Response \<times> Db" where
  "recordsUpdate api env req db =
     (case user req of
        None \<Rightarrow> (Send 401, db)
      | Some u \<Rightarrow>
          if \<not> hasPermission req editRecords \<and> role u \<noteq> Agent
          then (JsonMessage 403 ''No permission to edit records'', db)
          else
            (case records_update_input api (coerceDates env (body req)) of
               Inl err \<Rightarrow> (zodResponse err, db)
             | Inr input \<Rightarrow>
                 (let updated = updateRecord env db (params_id req) input
                  in case fst updated of
                       None \<Rightarrow> (JsonMessage 404 ''Record not found'', snd updated)
                     | Some record \<Rightarrow> (Json 200 record, snd updated))))"

definition recordsDelete :: "'b Request \<Rightarrow> Db \<Rightarrow> unit Response \<times> Db" where
  "recordsDelete req db =
     (if \<not> hasPermission req deleteRecords then (Send 403, db)
      else (Send 204, deleteRecord db (params_id req)))"

subsection \<open>Agents\<close>

text \<open>
  The update of an agent answers with whatever \<open>updateUser\<close> returned: \<open>res.json\<close> of
  \<open>undefined\<close> (here \<open>None\<close>) is an answer with status 200.
\<close>

definition agentsCreate ::
  "'u Api \<Rightarrow> Env \<Rightarrow> 'u Request \<Rightarrow> Db \<Rightarrow> User Response \<times> Db" where
  "agentsCreate api env req db =
     (if \<not> hasPermission req createAgents then (Send 403, db)
      else
        (case agents_create_input api (body req) of
           Inl err \<Rightarrow> (zodResponse err, db)
         | Inr input \<Rightarrow>
             (case getUserByUsername db (ins_username input) of
                Some existing \<Rightarrow> (JsonMessage 400 ''Username already exists'', db)
              | None \<Rightarrow>
                  (let created = createUser env db input
                   in (Json 201 (fst created), snd created)))))"

definition agentsUpdate ::
  "'u Api \<Rightarrow> Env \<Rightarrow> 'u Request \<Rightarrow> Db \<Rightarrow> User option Response \<times> Db" where
  "agentsUpdate api env req db =
     (if \<not> hasPermission req editAgents then (Send 403, db)
      else
        (case agents_update_input api (body req) of
           Inl err \<Rightarrow> (zodResponse err, db)
         | Inr input \<Rightarrow>
             (let updated = updateUser env db (params_id req) input
              in (Json 200 (fst updated), snd updated))))"

subsection \<open>Secondary admins\<close>

definition secondaryAdminsList :: "'b Request \<Rightarrow> Db \<Rightarrow> User list Response \<times> Db" where
  "secondaryAdminsList req db =
     (if \<not> isAdmin req then (Send 403, db) else (Json 200 (getSecondaryAdmins db), db))"

definition secondaryAdminsCreate ::
  "'u Api \<Rightarrow> Env \<Rightarrow> 'u Request \<Rightarrow> Db \<Rightarrow> User Response \<times> Db" where
  "secondaryAdminsCreate api env req db =
     (if \<not> isAdmin req then (Send 403, db)
      else
        (case secondaryAdmins_create_input api (body req) of
           Inl err \<Rightarrow> (zodResponse err, db)
         | Inr input \<Rightarrow>
             (case getUserByUsername db (ins_username input) of
                Some existing \<Rightarrow> (JsonMessage 400 ''Username already exists'', db)
              | None \<Rightarrow>
                  (let created = createUser env db (input\<lparr>ins_role := Some SecondaryAdmin\<rparr>)
                   in (Json 201 (fst created), snd created)))))"

definition secondaryAdminsUpdate ::
  "'u Api \<Rightarrow> Env \<Rightarrow> 'u Request \<Rightarrow> Db \<Rightarrow> User option Response \<times> Db" where
  "secondaryAdminsUpdate api env req db =
     (if \<not> isAdmin req then (Send 403, db)
      else
        (case secondaryAdmins_update_input api (body req) of
           Inl err \<Rightarrow> (zodResponse err, db)
         | Inr input \<Rightarrow>
             (let updated = updateUser env db (params_id req) input
              in (Json 200 (fst updated), snd updated))))"

subsection \<open>Seed data\<close>

text \<open>On startup the route module creates the two default accounts when there is no admin.\<close>

definition seedDatabase :: "Env \<Rightarrow> Db \<Rightarrow> Db" where
  "seedDatabase env db =
     (case getUserByUsername db ''admin'' of
        Some admin \<Rightarrow> db
      | None \<Rightarrow>
          (let db1 = snd (createUser env db
                 \<lparr> ins_username = ''admin'', ins_password = ''admin123'',
                   ins_fullName = ''System Administrator'', ins_role = Some Admin,
                   ins_permissions = None, ins_isActive = Some True \<rparr>)
           in snd (createUser env db1
                 \<lparr> ins_username = ''agent1'', ins_password = ''password'',
                   ins_fullName = ''John Doe'', ins_role = Some Agent,
                   ins_permissions = None, ins_isActive = Some True \<rparr>)))"

section \<open>Concrete inputs\<close>

text \<open>
  An environment whose local time zone is UTC and one two hours east of it, the empty
  database, the seeded users and a secondary admin who holds every permission.
\<close>

definition envAt :: "int \<Rightarrow> Env" where
  "envAt tza =
     \<lparr> hashPassword = (\<lambda>p. ''hashed:'' @ p), now = 1704103200000, localTZA = tza,
       parseDate = (\<lambda>s. None), defaultRole = Agent, defaultIsActive = True \<rparr>"

definition emptyDb :: Db where
  "emptyDb = \<lparr> users = [], records = [], customColumns = [], nextUserId = 1, nextRecordId = 1 \<rparr>"

definition adminUser :: User where
  "adminUser =
     \<lparr> userId = 1, username = ''admin'', password = ''hashed:admin123'',
       plainPassword = Some ''admin123'', fullName = ''System Administrator'', role = Admin,
       permissions = None, isActive = True \<rparr>"

definition agentUser :: User where
  "agentUser =
     \<lparr> userId = 2, username = ''agent1'', password = ''hashed:password'',
       plainPassword = Some ''password'', fullName = ''John Doe'', role = Agent,
       permissions = None, isActive = True \<rparr>"

definition secondaryUser :: User where
  "secondaryUser =
     \<lparr> userId = 3, username = ''deputy'', password = ''hashed:secret'',
       plainPassword = Some ''secret'', fullName = ''Deputy'', role = SecondaryAdmin,
       permissions = Some (map (\<lambda>p. (p, True)) ALL_PERMISSIONS), isActive = True \<rparr>"

definition requestOf :: "User \<Rightarrow> int \<Rightarrow> 'b \<Rightarrow> 'b Request" where
  "requestOf u i b = \<lparr> user = Some u, params_id = i, body = b \<rparr>"

definition recordAt :: "int \<Rightarrow> int \<Rightarrow> int option \<Rightarrow> RecordItem" where
  "recordAt i c t =
     \<lparr> recordId = i, collectedBy = c, landlordName = None, town = None, area = None,
       customFields = [], createdAt = t, updatedAt = None \<rparr>"

definition emptyBody :: RecordBody where
  "emptyBody =
     \<lparr> body_collectedBy = None, body_landlordName = None, body_town = None, body_area = None,
       body_customFields = [], body_gpsTimestamp = None, body_createdAt = None,
       body_updatedAt = None \<rparr>"

text \<open>
  Modelled from the spec: the request schemas of the shared route module
  (\<open>api.records\<close>, \<open>api.agents\<close>, \<open>api.secondaryAdmins\<close>), which are derived from the
  table columns and live outside the two server files. A user body must name the user, the
  password and the full name to be created, and may name any column to be updated. A
  record body may hold any text fields and any \<open>customFields\<close> object (a JSON column);
  its \<open>createdAt\<close>, when there, must be a valid date. The theorems below hold for every
  schema; this one serves the concrete inputs.
\<close>

record UserBody =
  ub_username :: "string option"
  ub_password :: "string option"
  ub_fullName :: "string option"
  ub_role :: "Role option"
  ub_permissions :: "PermissionsMap option"
  ub_isActive :: "bool option"

definition parseInsertUser :: "UserBody \<Rightarrow> ZodError + InsertUser" where
  "parseInsertUser b =
     (case ub_username b of
        None \<Rightarrow> Inl (ZodError ''Required'' [''username''])
      | Some n \<Rightarrow>
          (case ub_password b of
             None \<Rightarrow> Inl (ZodError ''Required'' [''password''])
           | Some pw \<Rightarrow>
               (case ub_fullName b of
                  None \<Rightarrow> Inl (ZodError ''Required'' [''fullName''])
                | Some fn \<Rightarrow>
                    Inr \<lparr> ins_username = n, ins_password = pw, ins_fullName = fn,
                          ins_role = ub_role b, ins_permissions = ub_permissions b,
                          ins_isActive = ub_isActive b \<rparr>)))"

definition parseUpdateUser :: "UserBody \<Rightarrow> ZodError + UpdateUserRequest" where
  "parseUpdateUser b =
     Inr \<lparr> upd_username = ub_username b, upd_password = ub_password b,
           upd_fullName = ub_fullName b, upd_role = ub_role b,
           upd_permissions = ub_permissions b, upd_isActive = ub_isActive b \<rparr>"

definition parseDateField :: "string \<Rightarrow> BodyValue option \<Rightarrow> ZodError + int option" where
  "parseDateField field v =
     (case v of
        None \<Rightarrow> Inr None
      | Some (DateOf (Some t)) \<Rightarrow> Inr (Some t)
      | Some other \<Rightarrow> Inl (ZodError ''Invalid date'' [field]))"

definition parseRecordInput :: "RecordBody \<Rightarrow> ZodError + RecordInput" where
  "parseRecordInput b =
     (case parseDateField ''createdAt'' (body_createdAt b) of
        Inl err \<Rightarrow> Inl err
      | Inr c \<Rightarrow>
          (case parseDateField ''updatedAt'' (body_updatedAt b) of
             Inl err \<Rightarrow> Inl err
           | Inr m \<Rightarrow>
               Inr \<lparr> in_landlordName = body_landlordName b, in_town = body_town b,
                     in_area = body_area b, in_customFields = body_customFields b,
                     in_createdAt = c, in_updatedAt = m \<rparr>))"

definition parseUpdateRecord :: "RecordBody \<Rightarrow> ZodError + UpdateRecordRequest" where
  "parseUpdateRecord b =
     (case parseDateField ''createdAt'' (body_createdAt b) of
        Inl err \<Rightarrow> Inl err
      | Inr c \<Rightarrow>
          Inr \<lparr> upr_collectedBy = body_collectedBy b, upr_landlordName = body_landlordName b,
                upr_town = body_town b, upr_area = body_area b,
                upr_customFields =
                  (if body_customFields b = [] then None else Some (body_customFields b)),
                upr_createdAt = c \<rparr>)"

definition exampleApi :: "UserBody Api" where
  "exampleApi =
     \<lparr> records_create_input = parseRecordInput,
       records_update_input = parseUpdateRecord,
       agents_create_input = parseInsertUser,
       agents_update_input = parseUpdateUser,
       secondaryAdmins_create_input = parseInsertUser,
       secondaryAdmins_update_input = parseUpdateUser \<rparr>"

definition emptyUserBody :: UserBody where
  "emptyUserBody =
     \<lparr> ub_username = None, ub_password = None, ub_fullName = None, ub_role = None,
       ub_permissions = None, ub_isActive = None \<rparr>"

definition seededDb :: Db where
  "seededDb = seedDatabase (envAt 0) emptyDb"

text \<open>
  The select column of the specification's example, a body that names nothing but a custom
  field, and an update of a user that names nothing.
\<close>

definition roofColumn :: CustomColumn where
  "roofColumn =
     \<lparr> columnId = 1, name = ''Roof Type'', fieldType = SelectField, isRequired = False,
       options = Some [''Tile'', ''Metal''], columnIsActive = True, columnCreatedAt = Some 0 \<rparr>"

definition roofBody :: "string \<Rightarrow> RecordBody" where
  "roofBody v = emptyBody\<lparr>body_customFields := [(''Roof Type'', v)]\<rparr>"

definition noUpdates :: UpdateUserRequest where
  "noUpdates =
     \<lparr> upd_username = None, upd_password = None, upd_fullName = None, upd_role = None,
       upd_permissions = None, upd_isActive = None \<rparr>"

text \<open>
  The filter object with no field set; the three records of the specification's week
  example (created on 2024-01-01 at 10:00 and at 23:00 and on 2024-01-08 at 05:00, UTC);
  records collected by the seeded agent and by a user that is not there; the seeded
  database after the admin has created a record in their own name; and records of two
  collectors in towns that match or miss the filter \<open>X\<close>.
\<close>

definition noFilters :: RecordFilters where
  "noFilters =
     \<lparr> flt_agentId = None, flt_search = None, flt_startDate = None, flt_endDate = None,
       flt_town = None, flt_area = None \<rparr>"

definition weekExample :: Db where
  "weekExample = emptyDb\<lparr>records :=
     [recordAt 1 2 (Some 1704103200000), recordAt 2 2 (Some 1704150000000),
      recordAt 3 2 (Some 1704690000000)]\<rparr>"

definition statsExample :: Db where
  "statsExample = seededDb\<lparr>records :=
     [recordAt 1 2 (Some 1704103200000), recordAt 2 7 None, recordAt 3 2 None]\<rparr>"

definition adminRecordDb :: Db where
  "adminRecordDb =
     snd (recordsCreate exampleApi (envAt 0) (requestOf adminUser 0 emptyBody) seededDb)"

definition townExample :: Db where
  "townExample = emptyDb\<lparr>records :=
     [(recordAt 1 3 (Some 10))\<lparr>town := Some ''Box Hill''\<rparr>,
      (recordAt 2 3 (Some 20))\<lparr>town := Some ''Yarra''\<rparr>,
      (recordAt 3 4 (Some 30))\<lparr>town := Some ''Exeter''\<rparr>,
      (recordAt 4 3 None)\<lparr>town := Some ''Essex''\<rparr>]\<rparr>"

text \<open>
  Eight records of which the first passes every filter of \<open>fullFilter\<close> and each of the
  others fails one kind of filter only: the agent, the search, the start date, the end
  date, the town, the area, and both dates with a null \<open>createdAt\<close>.
\<close>

definition filterRow :: "int \<Rightarrow> int \<Rightarrow> string \<Rightarrow> string \<Rightarrow> string \<Rightarrow> int option \<Rightarrow> RecordItem" where
  "filterRow i c l t a d =
     \<lparr> recordId = i, collectedBy = c, landlordName = Some l, town = Some t, area = Some a,
       customFields = [], createdAt = d, updatedAt = None \<rparr>"

definition filterExample :: Db where
  "filterExample = emptyDb\<lparr>records :=
     [filterRow 1 3 ''John Smith'' ''Box Hill'' ''North End'' (Some 20),
      filterRow 2 4 ''John Smith'' ''Box Hill'' ''North End'' (Some 20),
      filterRow 3 3 ''Ann Jones'' ''Box Hill'' ''North End'' (Some 20),
      filterRow 4 3 ''John Smith'' ''Box Hill'' ''North End'' (Some 5),
      filterRow 5 3 ''John Smith'' ''Box Hill'' ''North End'' (Some 40),
      filterRow 6 3 ''John Smith'' ''Yarra'' ''North End'' (Some 20),
      filterRow 7 3 ''John Smith'' ''Box Hill'' ''South Bank'' (Some 20),
      filterRow 8 3 ''John Smith'' ''Box Hill'' ''North End'' None]\<rparr>"

definition fullFilter :: RecordFilters where
  "fullFilter =
     \<lparr> flt_agentId = Some 3, flt_search = Some ''smi'', flt_startDate = Some 10,
       flt_endDate = Some 30, flt_town = Some ''X'', flt_area = Some ''north'' \<rparr>"

text \<open>A list of records is in the order of \<open>orderByCreatedAtDesc\<close>.\<close>

fun sortedDesc :: "RecordItem list \<Rightarrow> bool" where
  "sortedDesc [] = True"
| "sortedDesc (x # xs) = ((\<forall>y \<in> set xs. descLe (createdAt x) (createdAt y)) \<and> sortedDesc xs)"

section \<open>Permission model\<close>

lemma hasPermission_admin:
  "user req = Some u \<Longrightarrow> role u = Admin \<Longrightarrow> hasPermission req p"
  by (simp add: hasPermission_def isAuthenticated_def userRole_def)

lemma hasPermission_secondary:
  "user req = Some u \<Longrightarrow> role u = SecondaryAdmin \<Longrightarrow>
   hasPermission req p = (\<exists>m. permissions u = Some m \<and> map_of m p = Some True)"
  by (simp add: hasPermission_def isAuthenticated_def userRole_def split: option.splits)

lemma hasPermission_agent:
  "user req = Some u \<Longrightarrow> role u = Agent \<Longrightarrow> \<not> hasPermission req p"
  by (simp add: hasPermission_def isAuthenticated_def userRole_def)

text \<open>
  Claim C1. The permissions an actor holds, read off \<open>hasPermission\<close> at each permission:
  an admin holds every permission whatever the stored map says; a secondary admin holds
  exactly the permissions whose entry in the map is \<open>true\<close>, a missing key or a missing map
  counting as not held and never as an error; an agent holds none.
\<close>

theorem hasPermission_by_role:
  assumes "user req = Some u"
  shows "(role u = Admin \<longrightarrow> hasPermission req p)
       \<and> (role u = SecondaryAdmin \<longrightarrow>
            hasPermission req p = (\<exists>m. permissions u = Some m \<and> map_of m p = Some True))
       \<and> (role u = Agent \<longrightarrow> \<not> hasPermission req p)"
  using assms hasPermission_admin hasPermission_secondary hasPermission_agent by blast

theorem hasPermission_by_role_witness:
  "hasPermission (requestOf (adminUser\<lparr>permissions := Some [(viewStats, False)]\<rparr>) 0 ()) viewStats
   \<and> hasPermission
       (requestOf (secondaryUser\<lparr>permissions := Some [(viewStats, True), (editAgents, False)]\<rparr>) 0 ())
       viewStats
   \<and> \<not> hasPermission
       (requestOf (secondaryUser\<lparr>permissions := Some [(viewStats, True), (editAgents, False)]\<rparr>) 0 ())
       editAgents
   \<and> \<not> hasPermission
       (requestOf (secondaryUser\<lparr>permissions := Some [(viewStats, True), (editAgents, False)]\<rparr>) 0 ())
       deleteRecords
   \<and> \<not> hasPermission (requestOf (secondaryUser\<lparr>permissions := None\<rparr>) 0 ()) viewStats
   \<and> \<not> hasPermission (requestOf agentUser 0 ()) viewRecords"
  using
    hasPermission_by_role
      [of "requestOf (adminUser\<lparr>permissions := Some [(viewStats, False)]\<rparr>) 0 ()" _ viewStats]
    hasPermission_by_role
      [of "requestOf (secondaryUser\<lparr>permissions := Some [(viewStats, True), (editAgents, False)]\<rparr>) 0 ()"
        _ viewStats]
    hasPermission_by_role
      [of "requestOf (secondaryUser\<lparr>permissions := Some [(viewStats, True), (editAgents, False)]\<rparr>) 0 ()"
        _ editAgents]
    hasPermission_by_role
      [of "requestOf (secondaryUser\<lparr>permissions := Some [(viewStats, True), (editAgents, False)]\<rparr>) 0 ()"
        _ deleteRecords]
    hasPermission_by_role [of "requestOf (secondaryUser\<lparr>permissions := None\<rparr>) 0 ()" _ viewStats]
    hasPermission_by_role [of "requestOf agentUser 0 ()" agentUser viewRecords]
  by (simp add: requestOf_def adminUser_def secondaryUser_def agentUser_def)

section \<open>Authorization of the secondary admin routes\<close>

lemma seededDb_eq:
  "seededDb = \<lparr> users = [adminUser, agentUser], records = [], customColumns = [],
       nextUserId = 3, nextRecordId = 1 \<rparr>"
  by (simp add: seededDb_def seedDatabase_def getUserByUsername_def emptyDb_def createUser_def
      envAt_def adminUser_def agentUser_def Let_def)

lemma isAdmin_iff: "isAdmin req = (\<exists>u. user req = Some u \<and> role u = Admin)"
  by (cases "user req") (auto simp: isAdmin_def isAuthenticated_def userRole_def)

lemma status_zodResponse: "status (zodResponse err) = 400"
  by (simp add: zodResponse_def)

text \<open>
  Claim C2. Listing, creating and updating secondary admins are allowed exactly for an
  authenticated admin: for an admin none of the three handlers answers 403, and for
  everybody else (a secondary admin with every permission included) each answers 403 and
  leaves the database as it was.
\<close>

theorem secondaryAdmin_routes_admin_only:
  "(if \<exists>u. user req = Some u \<and> role u = Admin
    then status (fst (secondaryAdminsList req db)) \<noteq> 403
       \<and> status (fst (secondaryAdminsCreate api env req db)) \<noteq> 403
       \<and> status (fst (secondaryAdminsUpdate api env req db)) \<noteq> 403
    else secondaryAdminsList req db = (Send 403, db)
       \<and> secondaryAdminsCreate api env req db = (Send 403, db)
       \<and> secondaryAdminsUpdate api env req db = (Send 403, db))"
  by (simp add: isAdmin_iff [symmetric] secondaryAdminsList_def secondaryAdminsCreate_def
      secondaryAdminsUpdate_def status_zodResponse Let_def split: sum.splits option.splits)

theorem secondaryAdmin_routes_admin_only_witness:
  "secondaryAdminsList (requestOf secondaryUser 2 emptyUserBody) seededDb = (Send 403, seededDb)
   \<and> secondaryAdminsCreate exampleApi (envAt 0) (requestOf secondaryUser 2 emptyUserBody) seededDb
       = (Send 403, seededDb)
   \<and> secondaryAdminsUpdate exampleApi (envAt 0) (requestOf secondaryUser 2 emptyUserBody) seededDb
       = (Send 403, seededDb)
   \<and> status (fst (secondaryAdminsList (requestOf adminUser 2 emptyUserBody) seededDb)) \<noteq> 403
   \<and> status (fst (secondaryAdminsUpdate exampleApi (envAt 0)
         (requestOf adminUser 2 emptyUserBody) seededDb)) \<noteq> 403"
  using
    secondaryAdmin_routes_admin_only
      [of "requestOf secondaryUser 2 emptyUserBody" seededDb exampleApi "envAt 0"]
    secondaryAdmin_routes_admin_only
      [of "requestOf adminUser 2 emptyUserBody" seededDb exampleApi "envAt 0"]
  by (simp add: requestOf_def secondaryUser_def adminUser_def)

section \<open>The collector of a created record\<close>

lemma recordsCreate_accepted:
  assumes "user req = Some u"
      and "role u = Agent \<or> hasPermission req addRecords"
      and "records_create_input api (coerceDates env (body req)) = Inr input"
  shows "recordsCreate api env req db =
           (Json 201 (fst (createRecord db (input,
              (case body_collectedBy (body req) of
                 None \<Rightarrow> userId u
               | Some c \<Rightarrow> if isAdminOrSecondary req \<and> c \<noteq> 0 then c else userId u)))),
            snd (createRecord db (input,
              (case body_collectedBy (body req) of
                 None \<Rightarrow> userId u
               | Some c \<Rightarrow> if isAdminOrSecondary req \<and> c \<noteq> 0 then c else userId u))))"
  using assms by (auto simp: recordsCreate_def Let_def)

lemma createRecord_row:
  "collectedBy (fst (createRecord db (input, c))) = c
   \<and> records (snd (createRecord db (input, c))) = records db @ [fst (createRecord db (input, c))]"
  by (simp add: createRecord_def Let_def)

lemma isAdminOrSecondary_iff:
  "user req = Some u \<Longrightarrow> isAdminOrSecondary req = (role u \<noteq> Agent)"
  by (cases "role u") (simp_all add: isAdminOrSecondary_def isAuthenticated_def userRole_def)

lemma parseRecordInput_emptyBody:
  "records_create_input exampleApi
     (coerceDates env (emptyBody\<lparr>body_collectedBy := c\<rparr>))
   = Inr \<lparr> in_landlordName = None, in_town = None, in_area = None, in_customFields = [],
           in_createdAt = None, in_updatedAt = None \<rparr>"
  by (simp add: exampleApi_def parseRecordInput_def parseDateField_def coerceDates_def
      coerceField_def emptyBody_def)

text \<open>
  Claim C3, as amended. When the schema accepts the body, an agent's record is stored with
  the agent's own id as collector, whatever \<open>collectedBy\<close> the body names; the record of an
  admin or of a secondary admin with \<open>addRecords\<close> whose body names a \<open>collectedBy\<close> other
  than 0 is stored with that value.
\<close>

theorem recordsCreate_collectedBy:
  assumes "user req = Some u"
      and "records_create_input api (coerceDates env (body req)) = Inr input"
  shows "(role u = Agent \<longrightarrow>
            (\<exists>r db'. recordsCreate api env req db = (Json 201 r, db')
               \<and> collectedBy r = userId u \<and> records db' = records db @ [r]))
       \<and> (role u \<noteq> Agent \<and> hasPermission req addRecords
            \<and> body_collectedBy (body req) = Some c \<and> c \<noteq> 0 \<longrightarrow>
            (\<exists>r db'. recordsCreate api env req db = (Json 201 r, db')
               \<and> collectedBy r = c \<and> records db' = records db @ [r]))"
proof (intro conjI impI)
  assume a: "role u = Agent"
  then have "\<not> isAdminOrSecondary req"
    using assms(1) by (simp add: isAdminOrSecondary_iff)
  then show "\<exists>r db'. recordsCreate api env req db = (Json 201 r, db')
               \<and> collectedBy r = userId u \<and> records db' = records db @ [r]"
    using recordsCreate_accepted [OF assms(1) _ assms(2), of db] a createRecord_row
    by (auto split: option.splits)
next
  assume b: "role u \<noteq> Agent \<and> hasPermission req addRecords
            \<and> body_collectedBy (body req) = Some c \<and> c \<noteq> 0"
  then have "isAdminOrSecondary req"
    using assms(1) by (simp add: isAdminOrSecondary_iff)
  then show "\<exists>r db'. recordsCreate api env req db = (Json 201 r, db')
               \<and> collectedBy r = c \<and> records db' = records db @ [r]"
    using recordsCreate_accepted [OF assms(1) _ assms(2), of db] b createRecord_row
    by auto
qed

theorem recordsCreate_collectedBy_witness:
  "map collectedBy (records (snd (recordsCreate exampleApi (envAt 0)
       (requestOf agentUser 0 (emptyBody\<lparr>body_collectedBy := Some 1\<rparr>)) seededDb))) = [2]
   \<and> map collectedBy (records (snd (recordsCreate exampleApi (envAt 0)
       (requestOf secondaryUser 0 (emptyBody\<lparr>body_collectedBy := Some 2\<rparr>)) seededDb))) = [2]"
proof -
  have u1: "user (requestOf agentUser 0 (emptyBody\<lparr>body_collectedBy := Some 1\<rparr>)) = Some agentUser"
    by (simp add: requestOf_def)
  have p1: "records_create_input exampleApi (coerceDates (envAt 0)
              (body (requestOf agentUser 0 (emptyBody\<lparr>body_collectedBy := Some 1\<rparr>))))
            = Inr \<lparr> in_landlordName = None, in_town = None, in_area = None, in_customFields = [],
                    in_createdAt = None, in_updatedAt = None \<rparr>"
    by (simp add: requestOf_def parseRecordInput_emptyBody)
  have u2: "user (requestOf secondaryUser 0 (emptyBody\<lparr>body_collectedBy := Some 2\<rparr>))
            = Some secondaryUser"
    by (simp add: requestOf_def)
  have p2: "records_create_input exampleApi (coerceDates (envAt 0)
              (body (requestOf secondaryUser 0 (emptyBody\<lparr>body_collectedBy := Some 2\<rparr>))))
            = Inr \<lparr> in_landlordName = None, in_town = None, in_area = None, in_customFields = [],
                    in_createdAt = None, in_updatedAt = None \<rparr>"
    by (simp add: requestOf_def parseRecordInput_emptyBody)
  have s: "hasPermission (requestOf secondaryUser 0 (emptyBody\<lparr>body_collectedBy := Some 2\<rparr>))
             addRecords"
    by (simp add: hasPermission_def isAuthenticated_def userRole_def requestOf_def
        secondaryUser_def ALL_PERMISSIONS_def)
  have b: "body_collectedBy (body (requestOf secondaryUser 0 (emptyBody\<lparr>body_collectedBy := Some 2\<rparr>)))
           = Some 2"
    by (simp add: requestOf_def)
  have r: "role agentUser = Agent" "role secondaryUser \<noteq> Agent" "userId agentUser = 2"
    by (simp_all add: agentUser_def secondaryUser_def)
  show ?thesis
    using recordsCreate_collectedBy [OF u1 p1, of seededDb 0]
      recordsCreate_collectedBy [OF u2 p2, of seededDb 2] s b r
    by (auto simp: seededDb_eq)
qed

text \<open>
  A \<open>collectedBy\<close> of 0 in the body of an admin is falsy and is passed over: the record is
  stored with the admin's id 1.
\<close>

theorem recordsCreate_collectedBy_zero:
  "body_collectedBy (body (requestOf adminUser 0 (emptyBody\<lparr>body_collectedBy := Some 0\<rparr>))) = Some 0
   \<and> hasPermission (requestOf adminUser 0 (emptyBody\<lparr>body_collectedBy := Some 0\<rparr>)) addRecords
   \<and> recordsCreate exampleApi (envAt 0)
       (requestOf adminUser 0 (emptyBody\<lparr>body_collectedBy := Some 0\<rparr>)) seededDb
     = (Json 201 (recordAt 1 1 None), seededDb\<lparr>records := [recordAt 1 1 None], nextRecordId := 2\<rparr>)"
  by (simp add: recordsCreate_def requestOf_def adminUser_def hasPermission_def
      isAuthenticated_def userRole_def isAdminOrSecondary_def parseRecordInput_emptyBody
      createRecord_def recordAt_def seededDb_eq Let_def)

section \<open>Updates of rows that are not there\<close>

lemma map_absent:
  "\<forall>x \<in> set xs. \<not> P x \<Longrightarrow> map (\<lambda>x. if P x then g x else x) xs = xs"
  by (induction xs) auto

lemma find_absent: "\<forall>x \<in> set xs. \<not> P x \<Longrightarrow> find P xs = None"
  by (induction xs) auto

lemma updateRecord_missing:
  assumes "\<forall>r \<in> set (records db). recordId r \<noteq> i"
  shows "updateRecord env db i updates = (None, db)"
  using assms by (simp add: updateRecord_def Let_def map_absent find_absent)

lemma updateUser_missing:
  assumes "\<forall>u \<in> set (users db). userId u \<noteq> i"
  shows "updateUser env db i updates = (None, db)"
  using assms by (simp add: updateUser_def Let_def map_absent find_absent)

text \<open>
  The update of a record that is not there is answered with 404, once the request is
  authorized and the schema has accepted the body.
\<close>

lemma recordsUpdate_not_found:
  assumes "user req = Some u"
      and "hasPermission req editRecords \<or> role u = Agent"
      and "records_update_input api (coerceDates env (body req)) = Inr input"
      and "\<forall>r \<in> set (records db). recordId r \<noteq> params_id req"
  shows "recordsUpdate api env req db = (JsonMessage 404 ''Record not found'', db)"
  using assms by (auto simp: recordsUpdate_def updateRecord_missing)

text \<open>The update of an agent that is not there is answered with 200 and no user.\<close>

lemma agentsUpdate_missing:
  assumes "hasPermission req editAgents"
      and "agents_update_input api (body req) = Inr input"
      and "\<forall>u \<in> set (users db). userId u \<noteq> params_id req"
  shows "agentsUpdate api env req db = (Json 200 None, db)"
  using assms by (simp add: agentsUpdate_def updateUser_missing)

text \<open>
  Claim C8. A missing id is to be answered with NotFound, for records and for agents. The
  record handler does so. The agent handler does not: the admin's update of agent 999,
  which does not exist, with a body the schema accepts, is answered with status 200 and
  an empty body.
\<close>

theorem agentsUpdate_missing_agent:
  "getUser seededDb 999 = None
   \<and> hasPermission (requestOf adminUser 999 (emptyUserBody\<lparr>ub_fullName := Some ''Nobody''\<rparr>)) editAgents
   \<and> agentsUpdate exampleApi (envAt 0)
       (requestOf adminUser 999 (emptyUserBody\<lparr>ub_fullName := Some ''Nobody''\<rparr>)) seededDb
     = (Json 200 None, seededDb)"
proof -
  have h: "hasPermission (requestOf adminUser 999 (emptyUserBody\<lparr>ub_fullName := Some ''Nobody''\<rparr>))
             editAgents"
    by (simp add: hasPermission_def isAuthenticated_def userRole_def requestOf_def adminUser_def)
  have p: "agents_update_input exampleApi
             (body (requestOf adminUser 999 (emptyUserBody\<lparr>ub_fullName := Some ''Nobody''\<rparr>)))
           = Inr (noUpdates\<lparr>upd_fullName := Some ''Nobody''\<rparr>)"
    by (simp add: exampleApi_def parseUpdateUser_def requestOf_def emptyUserBody_def noUpdates_def)
  have n: "\<forall>u \<in> set (users seededDb).
             userId u \<noteq> params_id (requestOf adminUser 999 (emptyUserBody\<lparr>ub_fullName := Some ''Nobody''\<rparr>))"
    by (simp add: seededDb_eq requestOf_def adminUser_def agentUser_def)
  have g: "getUser seededDb 999 = None"
    by (simp add: getUser_def seededDb_eq adminUser_def agentUser_def)
  show ?thesis using h g agentsUpdate_missing [OF h p n] by simp
qed

section \<open>Custom fields at record creation\<close>

lemma recordsCreate_columns:
  "recordsCreate api env req (db\<lparr>customColumns := cols\<rparr>)
   = (fst (recordsCreate api env req db), (snd (recordsCreate api env req db))\<lparr>customColumns := cols\<rparr>)"
  by (simp add: recordsCreate_def createRecord_def Let_def split: option.splits sum.splits)

text \<open>
  Claim C9, as amended. The create handler never reads the custom columns: its answer and
  the records it stores are the same whatever columns the database holds, and a body that
  the request schema accepts is stored with the custom fields the schema returned.
\<close>

theorem recordsCreate_ignores_customColumns:
  "fst (recordsCreate api env req (db\<lparr>customColumns := cols\<rparr>)) = fst (recordsCreate api env req db)
   \<and> records (snd (recordsCreate api env req (db\<lparr>customColumns := cols\<rparr>)))
     = records (snd (recordsCreate api env req db))
   \<and> (user req = Some u \<and> (role u = Agent \<or> hasPermission req addRecords)
        \<and> records_create_input api (coerceDates env (body req)) = Inr input \<longrightarrow>
        (\<exists>r db'. recordsCreate api env req db = (Json 201 r, db')
           \<and> customFields r = in_customFields input \<and> records db' = records db @ [r]))"
  by (auto simp: recordsCreate_columns recordsCreate_accepted createRecord_def Let_def)

lemma parseRecordInput_roofBody:
  "records_create_input exampleApi (coerceDates env (roofBody v))
   = Inr \<lparr> in_landlordName = None, in_town = None, in_area = None,
           in_customFields = [(''Roof Type'', v)], in_createdAt = None, in_updatedAt = None \<rparr>"
  by (simp add: exampleApi_def parseRecordInput_def parseDateField_def coerceDates_def
      coerceField_def emptyBody_def roofBody_def)

lemma roofBody_collectedBy: "body_collectedBy (roofBody v) = None"
  by (simp add: roofBody_def emptyBody_def)

theorem recordsCreate_ignores_customColumns_witness:
  "fst (recordsCreate exampleApi (envAt 0) (requestOf agentUser 0 (roofBody ''Tile''))
         (seededDb\<lparr>customColumns := [roofColumn]\<rparr>))
     = fst (recordsCreate exampleApi (envAt 0) (requestOf agentUser 0 (roofBody ''Tile'')) seededDb)
   \<and> map customFields (records (snd (recordsCreate exampleApi (envAt 0)
         (requestOf agentUser 0 (roofBody ''Tile'')) seededDb))) = [[(''Roof Type'', ''Tile'')]]"
proof -
  have u: "user (requestOf agentUser 0 (roofBody ''Tile'')) = Some agentUser
           \<and> (role agentUser = Agent
               \<or> hasPermission (requestOf agentUser 0 (roofBody ''Tile'')) addRecords)
           \<and> records_create_input exampleApi
               (coerceDates (envAt 0) (body (requestOf agentUser 0 (roofBody ''Tile''))))
             = Inr \<lparr> in_landlordName = None, in_town = None, in_area = None,
                     in_customFields = [(''Roof Type'', ''Tile'')], in_createdAt = None,
                     in_updatedAt = None \<rparr>"
    by (simp add: requestOf_def agentUser_def parseRecordInput_roofBody)
  show ?thesis
    using u recordsCreate_ignores_customColumns
        [where api = exampleApi and env = "envAt 0" and db = seededDb and cols = "[roofColumn]"
           and req = "requestOf agentUser 0 (roofBody ''Tile'')" and u = agentUser
           and input = "\<lparr> in_landlordName = None, in_town = None, in_area = None,
                     in_customFields = [(''Roof Type'', ''Tile'')], in_createdAt = None,
                     in_updatedAt = None \<rparr>"]
    by (auto simp: seededDb_eq)
qed

text \<open>
  With the select column \<open>Roof Type\<close> of options \<open>Tile\<close> and \<open>Metal\<close> in the database, an
  agent's record with the value \<open>Thatch\<close> is stored and answered with 201.
\<close>

theorem recordsCreate_stores_thatch:
  "fieldType roofColumn = SelectField
   \<and> options roofColumn = Some [''Tile'', ''Metal'']
   \<and> recordsCreate exampleApi (envAt 0) (requestOf agentUser 0 (roofBody ''Thatch''))
       (seededDb\<lparr>customColumns := [roofColumn]\<rparr>)
     = (Json 201 ((recordAt 1 2 None)\<lparr>customFields := [(''Roof Type'', ''Thatch'')]\<rparr>),
        seededDb\<lparr> customColumns := [roofColumn],
                  records := [(recordAt 1 2 None)\<lparr>customFields := [(''Roof Type'', ''Thatch'')]\<rparr>],
                  nextRecordId := 2 \<rparr>)"
  by (simp add: recordsCreate_def requestOf_def agentUser_def parseRecordInput_roofBody
      createRecord_def recordAt_def seededDb_eq roofColumn_def roofBody_collectedBy
      isAdminOrSecondary_def isAuthenticated_def userRole_def Let_def)

section \<open>Plain passwords\<close>

lemma createUser_row:
  "plainPassword (fst (createUser env db insertUser)) = Some (ins_password insertUser)
   \<and> password (fst (createUser env db insertUser)) = hashPassword env (ins_password insertUser)
   \<and> users (snd (createUser env db insertUser)) = users db @ [fst (createUser env db insertUser)]"
  by (simp add: createUser_def Let_def)

lemma find_present:
  "u \<in> set us \<Longrightarrow> userId u = i \<Longrightarrow> (\<forall>x. userId (g x) = userId x)
   \<Longrightarrow> \<exists>x \<in> set us. userId x = i
        \<and> find (\<lambda>x. userId x = i) (map (\<lambda>x. if userId x = i then g x else x) us) = Some (g x)"
  by (induction us) auto

lemma userId_setUser: "userId (setUser updates plain u) = userId u"
  by (simp add: setUser_def)

lemma updateUser_password:
  assumes "upd_password updates = Some pw" and "pw \<noteq> []"
  shows "updateUser env db i updates =
           (find (\<lambda>u. userId u = i)
              (map (\<lambda>u. if userId u = i
                         then setUser (updates\<lparr>upd_password := Some (hashPassword env pw)\<rparr>) (Some pw) u
                         else u) (users db)),
            db\<lparr>users := map (\<lambda>u. if userId u = i
                         then setUser (updates\<lparr>upd_password := Some (hashPassword env pw)\<rparr>) (Some pw) u
                         else u) (users db)\<rparr>)"
  using assms by (simp add: updateUser_def truthyString_def Let_def)

lemma setUser_password:
  "plainPassword (setUser (updates\<lparr>upd_password := Some h\<rparr>) (Some pw) u) = Some pw
   \<and> password (setUser (updates\<lparr>upd_password := Some h\<rparr>) (Some pw) u) = h"
  by (simp add: setUser_def)

text \<open>
  Claim C10, as amended. \<open>createUser\<close> stores the password it was given, as it was given,
  in \<open>plainPassword\<close> beside the hash. \<open>updateUser\<close> with a password other than the empty
  string does the same for the user it updates: the row it returns, and every row of
  that id, holds the password in \<open>plainPassword\<close> and its hash in \<open>password\<close>.
\<close>

theorem plainPassword_stored:
  "plainPassword (fst (createUser env db insertUser)) = Some (ins_password insertUser)
   \<and> fst (createUser env db insertUser) \<in> set (users (snd (createUser env db insertUser)))
   \<and> (upd_password updates = Some pw \<and> pw \<noteq> [] \<and> (\<exists>u \<in> set (users db). userId u = i) \<longrightarrow>
        (\<exists>v. fst (updateUser env db i updates) = Some v
           \<and> plainPassword v = Some pw \<and> password v = hashPassword env pw)
        \<and> (\<forall>v \<in> set (users (snd (updateUser env db i updates))).
             userId v = i \<longrightarrow> plainPassword v = Some pw \<and> password v = hashPassword env pw))"
proof (intro conjI impI)
  show "plainPassword (fst (createUser env db insertUser)) = Some (ins_password insertUser)"
    by (simp add: createUser_row)
  show "fst (createUser env db insertUser) \<in> set (users (snd (createUser env db insertUser)))"
    by (simp add: createUser_row)
next
  assume a: "upd_password updates = Some pw \<and> pw \<noteq> [] \<and> (\<exists>u \<in> set (users db). userId u = i)"
  then obtain u where u: "u \<in> set (users db)" "userId u = i" by blast
  from find_present [OF u, of "setUser (updates\<lparr>upd_password := Some (hashPassword env pw)\<rparr>) (Some pw)"]
  obtain x where "fst (updateUser env db i updates)
      = Some (setUser (updates\<lparr>upd_password := Some (hashPassword env pw)\<rparr>) (Some pw) x)"
    using a by (auto simp: updateUser_password userId_setUser)
  then show "\<exists>v. fst (updateUser env db i updates) = Some v
           \<and> plainPassword v = Some pw \<and> password v = hashPassword env pw"
    by (simp add: setUser_password)
next
  assume a: "upd_password updates = Some pw \<and> pw \<noteq> [] \<and> (\<exists>u \<in> set (users db). userId u = i)"
  show "\<forall>v \<in> set (users (snd (updateUser env db i updates))).
          userId v = i \<longrightarrow> plainPassword v = Some pw \<and> password v = hashPassword env pw"
    using a by (auto simp: updateUser_password setUser_password)
qed

theorem plainPassword_stored_witness:
  "map plainPassword (users (snd (createUser (envAt 0) emptyDb
       \<lparr> ins_username = ''admin'', ins_password = ''admin123'',
         ins_fullName = ''System Administrator'', ins_role = Some Admin,
         ins_permissions = None, ins_isActive = Some True \<rparr>))) = [Some ''admin123'']
   \<and> map plainPassword
       (users (snd (updateUser (envAt 0) seededDb 2 (noUpdates\<lparr>upd_password := Some ''new''\<rparr>))))
     = [Some ''admin123'', Some ''new'']
   \<and> map password
       (users (snd (updateUser (envAt 0) seededDb 2 (noUpdates\<lparr>upd_password := Some ''new''\<rparr>))))
     = [''hashed:admin123'', ''hashed:new'']"
  using
    plainPassword_stored
      [of "envAt 0" emptyDb
        "\<lparr> ins_username = ''admin'', ins_password = ''admin123'',
           ins_fullName = ''System Administrator'', ins_role = Some Admin,
           ins_permissions = None, ins_isActive = Some True \<rparr>"
        "noUpdates\<lparr>upd_password := Some ''new''\<rparr>" "''new''" 2]
    plainPassword_stored
      [of "envAt 0" seededDb
        "\<lparr> ins_username = ''admin'', ins_password = ''admin123'',
           ins_fullName = ''System Administrator'', ins_role = Some Admin,
           ins_permissions = None, ins_isActive = Some True \<rparr>"
        "noUpdates\<lparr>upd_password := Some ''new''\<rparr>" "''new''" 2]
  by (simp add: createUser_def updateUser_def setUser_def truthyString_def noUpdates_def
      seededDb_eq emptyDb_def envAt_def adminUser_def agentUser_def Let_def)

text \<open>
  An update whose password is the empty string is falsy in the guard of \<open>updateUser\<close>: the
  empty string is stored as the password, unhashed, and \<open>plainPassword\<close> keeps the old
  password.
\<close>

theorem updateUser_empty_password:
  "upd_password (noUpdates\<lparr>upd_password := Some []\<rparr>) = Some []
   \<and> fst (updateUser (envAt 0) seededDb 2 (noUpdates\<lparr>upd_password := Some []\<rparr>))
     = Some (agentUser\<lparr>password := []\<rparr>)
   \<and> plainPassword (agentUser\<lparr>password := []\<rparr>) = Some ''password''"
  by (simp add: updateUser_def setUser_def truthyString_def noUpdates_def seededDb_eq
      adminUser_def agentUser_def Let_def)

section \<open>The record filters\<close>

lemma set_insertDesc: "set (insertDesc r xs) = insert r (set xs)"
  by (induction xs) auto

lemma set_orderByCreatedAtDesc: "set (orderByCreatedAtDesc rows) = set rows"
  by (induction rows) (auto simp: orderByCreatedAtDesc_def set_insertDesc)

lemma set_getRecords:
  "set (getRecords lower db filters)
   = {r \<in> set (records db). list_all (\<lambda>c. c r) (conditions lower filters)}"
  by (auto simp: getRecords_def set_orderByCreatedAtDesc)

text \<open>
  What \<open>getRecords\<close> returns, filter by filter: a record of the table is in the result
  exactly when it passes every filter that is set to a truthy value.
\<close>

lemma getRecords_iff:
  "r \<in> set (getRecords lower db (Some f)) \<longleftrightarrow>
     r \<in> set (records db)
     \<and> (case flt_agentId f of None \<Rightarrow> True | Some a \<Rightarrow> a = 0 \<or> collectedBy r = a)
     \<and> (case flt_search f of None \<Rightarrow> True
         | Some s \<Rightarrow> s = [] \<or> ilike lower (landlordName r) (''%'' @ s @ ''%''))
     \<and> (case flt_startDate f of None \<Rightarrow> True
         | Some d \<Rightarrow> (case createdAt r of None \<Rightarrow> False | Some c \<Rightarrow> d \<le> c))
     \<and> (case flt_endDate f of None \<Rightarrow> True
         | Some d \<Rightarrow> (case createdAt r of None \<Rightarrow> False | Some c \<Rightarrow> c \<le> d))
     \<and> (case flt_town f of None \<Rightarrow> True
         | Some s \<Rightarrow> s = [] \<or> ilike lower (town r) (''%'' @ s @ ''%''))
     \<and> (case flt_area f of None \<Rightarrow> True
         | Some s \<Rightarrow> s = [] \<or> ilike lower (area r) (''%'' @ s @ ''%''))"
  by (auto simp: set_getRecords conditions_def split: option.splits)

text \<open>
  The result is the rows of the table that are in it, each as often as the table holds
  it, in the order of \<open>orderByCreatedAtDesc\<close>.
\<close>

lemma getRecords_rows:
  "getRecords lower db filters
   = orderByCreatedAtDesc
       (filter (\<lambda>r. r \<in> set (getRecords lower db filters)) (records db))"
proof -
  have "filter (\<lambda>r. r \<in> set (getRecords lower db filters)) (records db)
        = filter (\<lambda>r. list_all (\<lambda>c. c r) (conditions lower filters)) (records db)"
    by (rule filter_cong) (auto simp: set_getRecords)
  then show ?thesis by (simp add: getRecords_def)
qed

lemma descLe_trans: "descLe a b \<Longrightarrow> descLe b c \<Longrightarrow> descLe a c"
  by (auto simp: descLe_def split: option.splits)

lemma descLe_total: "descLe a b \<or> descLe b a"
  by (auto simp: descLe_def split: option.splits)

lemma sortedDesc_insertDesc: "sortedDesc xs \<Longrightarrow> sortedDesc (insertDesc r xs)"
proof (induction xs)
  case Nil
  then show ?case by simp
next
  case (Cons x xs)
  show ?case
  proof (cases "descLe (createdAt r) (createdAt x)")
    case True
    then have "\<forall>y \<in> set xs. descLe (createdAt r) (createdAt y)"
      using Cons.prems descLe_trans by auto
    with True Cons.prems show ?thesis by simp
  next
    case False
    then have "descLe (createdAt x) (createdAt r)"
      using descLe_total by blast
    with False Cons show ?thesis by (auto simp: set_insertDesc)
  qed
qed

lemma sortedDesc_orderBy: "sortedDesc (orderByCreatedAtDesc rows)"
  by (induction rows) (auto simp: orderByCreatedAtDesc_def sortedDesc_insertDesc)

lemma filter_insertDesc:
  "sortedDesc xs \<Longrightarrow>
   filter P (insertDesc r xs) = (if P r then insertDesc r (filter P xs) else filter P xs)"
proof (induction xs)
  case Nil
  then show ?case by simp
next
  case (Cons x xs)
  show ?case
  proof (cases "descLe (createdAt r) (createdAt x)")
    case True
    have "\<forall>y \<in> set xs. descLe (createdAt r) (createdAt y)"
      using Cons.prems True descLe_trans by auto
    then have "insertDesc r (filter P xs) = r # filter P xs"
      by (cases "filter P xs") (auto simp: filter_eq_Cons_iff)
    with True show ?thesis by simp
  next
    case False
    with Cons show ?thesis by simp
  qed
qed

text \<open>The order is stable, so filtering the ordered rows is ordering the filtered rows.\<close>

lemma filter_orderBy:
  "filter P (orderByCreatedAtDesc rows) = orderByCreatedAtDesc (filter P rows)"
proof (induction rows)
  case Nil
  then show ?case by (simp add: orderByCreatedAtDesc_def)
next
  case (Cons r rows)
  have "filter P (orderByCreatedAtDesc (r # rows))
        = filter P (insertDesc r (orderByCreatedAtDesc rows))"
    by (simp add: orderByCreatedAtDesc_def)
  also have "\<dots> = (if P r then insertDesc r (filter P (orderByCreatedAtDesc rows))
                   else filter P (orderByCreatedAtDesc rows))"
    by (rule filter_insertDesc) (rule sortedDesc_orderBy)
  also have "\<dots> = orderByCreatedAtDesc (filter P (r # rows))"
    using Cons by (simp add: orderByCreatedAtDesc_def)
  finally show ?case .
qed

lemma orderBy_sorted: "sortedDesc xs \<Longrightarrow> orderByCreatedAtDesc xs = xs"
proof (induction xs)
  case Nil
  then show ?case by (simp add: orderByCreatedAtDesc_def)
next
  case (Cons x xs)
  then have "orderByCreatedAtDesc (x # xs) = insertDesc x xs"
    by (simp add: orderByCreatedAtDesc_def)
  also have "\<dots> = x # xs"
    using Cons.prems by (cases xs) auto
  finally show ?case .
qed

text \<open>The two ways of filtering give the same rows in the same order.\<close>

lemma getRecords_compose_list:
  "getRecords lower
     (db\<lparr>records := getRecords lower db (Some (noFilters\<lparr>flt_town := Some x\<rparr>))\<rparr>)
     (Some (noFilters\<lparr>flt_agentId := Some a\<rparr>))
   = getRecords lower db (Some (noFilters\<lparr>flt_town := Some x, flt_agentId := Some a\<rparr>))"
  by (simp add: getRecords_def filter_orderBy orderBy_sorted sortedDesc_orderBy conditions_def
      noFilters_def conj_commute)

lemma getRecords_compose_set:
  "set (getRecords lower
          (db\<lparr>records := getRecords lower db (Some (noFilters\<lparr>flt_town := Some x\<rparr>))\<rparr>)
          (Some (noFilters\<lparr>flt_agentId := Some a\<rparr>)))
   = set (getRecords lower db (Some (noFilters\<lparr>flt_town := Some x, flt_agentId := Some a\<rparr>)))"
  by (simp add: getRecords_compose_list)

lemma getRecords_no_filter:
  "getRecords lower db (Some noFilters) = orderByCreatedAtDesc (records db)
   \<and> getRecords lower db None = orderByCreatedAtDesc (records db)"
  by (simp add: getRecords_def conditions_def noFilters_def)

text \<open>
  Claim C6, as amended. \<open>getRecords\<close> applies each filter whose value is truthy (an agent
  id other than 0, a search, town or area other than the empty string, any start or end
  date) as a predicate of its own, and joins the predicates by \<open>and\<close>: a record of the
  table is in the result exactly when it passes each of these filters, and the result
  holds these records as often as the table does, ordered by \<open>createdAt\<close>. A filter that
  is absent, or 0, or the empty string, leaves every record in. For every table, town
  \<open>x\<close> and agent \<open>a\<close> (the \<open>X\<close> and the 3 of the example among them), filtering by town and
  then filtering the result by agent gives the same set of records as filtering once by
  both.
\<close>

theorem getRecords_truthy_filters:
  "(r \<in> set (getRecords lower db (Some f)) \<longleftrightarrow>
      r \<in> set (records db)
      \<and> (case flt_agentId f of None \<Rightarrow> True | Some a \<Rightarrow> a = 0 \<or> collectedBy r = a)
      \<and> (case flt_search f of None \<Rightarrow> True
          | Some s \<Rightarrow> s = [] \<or> ilike lower (landlordName r) (''%'' @ s @ ''%''))
      \<and> (case flt_startDate f of None \<Rightarrow> True
          | Some d \<Rightarrow> (case createdAt r of None \<Rightarrow> False | Some c \<Rightarrow> d \<le> c))
      \<and> (case flt_endDate f of None \<Rightarrow> True
          | Some d \<Rightarrow> (case createdAt r of None \<Rightarrow> False | Some c \<Rightarrow> c \<le> d))
      \<and> (case flt_town f of None \<Rightarrow> True
          | Some s \<Rightarrow> s = [] \<or> ilike lower (town r) (''%'' @ s @ ''%''))
      \<and> (case flt_area f of None \<Rightarrow> True
          | Some s \<Rightarrow> s = [] \<or> ilike lower (area r) (''%'' @ s @ ''%'')))
   \<and> getRecords lower db filters
     = orderByCreatedAtDesc
         (filter (\<lambda>r. r \<in> set (getRecords lower db filters)) (records db))
   \<and> set (getRecords lower db (Some noFilters)) = set (records db)
   \<and> set (getRecords lower db None) = set (records db)
   \<and> set (getRecords lower
            (db\<lparr>records := getRecords lower db (Some (noFilters\<lparr>flt_town := Some x\<rparr>))\<rparr>)
            (Some (noFilters\<lparr>flt_agentId := Some a\<rparr>)))
     = set (getRecords lower db (Some (noFilters\<lparr>flt_town := Some x, flt_agentId := Some a\<rparr>)))"
proof (intro conjI)
  show "r \<in> set (getRecords lower db (Some f)) \<longleftrightarrow>
      r \<in> set (records db)
      \<and> (case flt_agentId f of None \<Rightarrow> True | Some a \<Rightarrow> a = 0 \<or> collectedBy r = a)
      \<and> (case flt_search f of None \<Rightarrow> True
          | Some s \<Rightarrow> s = [] \<or> ilike lower (landlordName r) (''%'' @ s @ ''%''))
      \<and> (case flt_startDate f of None \<Rightarrow> True
          | Some d \<Rightarrow> (case createdAt r of None \<Rightarrow> False | Some c \<Rightarrow> d \<le> c))
      \<and> (case flt_endDate f of None \<Rightarrow> True
          | Some d \<Rightarrow> (case createdAt r of None \<Rightarrow> False | Some c \<Rightarrow> c \<le> d))
      \<and> (case flt_town f of None \<Rightarrow> True
          | Some s \<Rightarrow> s = [] \<or> ilike lower (town r) (''%'' @ s @ ''%''))
      \<and> (case flt_area f of None \<Rightarrow> True
          | Some s \<Rightarrow> s = [] \<or> ilike lower (area r) (''%'' @ s @ ''%''))"
    by (rule getRecords_iff)
  show "getRecords lower db filters
     = orderByCreatedAtDesc
         (filter (\<lambda>r. r \<in> set (getRecords lower db filters)) (records db))"
    by (rule getRecords_rows)
  show "set (getRecords lower db (Some noFilters)) = set (records db)"
    by (simp add: getRecords_no_filter set_orderByCreatedAtDesc)
  show "set (getRecords lower db None) = set (records db)"
    by (simp add: getRecords_no_filter set_orderByCreatedAtDesc)
  show "set (getRecords lower
            (db\<lparr>records := getRecords lower db (Some (noFilters\<lparr>flt_town := Some x\<rparr>))\<rparr>)
            (Some (noFilters\<lparr>flt_agentId := Some a\<rparr>)))
     = set (getRecords lower db (Some (noFilters\<lparr>flt_town := Some x, flt_agentId := Some a\<rparr>)))"
    by (rule getRecords_compose_set)
qed

text \<open>
  On the eight records of \<open>filterExample\<close> the six filters of \<open>fullFilter\<close> leave the first
  record only, and each of the other records is put out by one filter; on the towns of
  \<open>townExample\<close> the town \<open>X\<close> and then the agent 3 leave what both leave at once.
\<close>

theorem getRecords_truthy_filters_witness:
  "map recordId (getRecords lowerASCII filterExample (Some fullFilter)) = [1]
   \<and> map recordId (getRecords lowerASCII filterExample (Some (fullFilter\<lparr>flt_agentId := None\<rparr>)))
     = [1, 2]
   \<and> map recordId (getRecords lowerASCII filterExample (Some (fullFilter\<lparr>flt_search := None\<rparr>)))
     = [1, 3]
   \<and> map recordId (getRecords lowerASCII filterExample (Some (fullFilter\<lparr>flt_startDate := None\<rparr>)))
     = [1, 4]
   \<and> map recordId (getRecords lowerASCII filterExample (Some (fullFilter\<lparr>flt_endDate := None\<rparr>)))
     = [5, 1]
   \<and> map recordId (getRecords lowerASCII filterExample (Some (fullFilter\<lparr>flt_town := None\<rparr>)))
     = [1, 6]
   \<and> map recordId (getRecords lowerASCII filterExample (Some (fullFilter\<lparr>flt_area := None\<rparr>)))
     = [1, 7]
   \<and> map recordId (getRecords lowerASCII filterExample
        (Some (fullFilter\<lparr>flt_startDate := None, flt_endDate := None\<rparr>))) = [8, 5, 1, 4]
   \<and> filterRow 1 3 ''John Smith'' ''Box Hill'' ''North End'' (Some 20)
       \<in> set (getRecords lowerASCII filterExample (Some fullFilter))
   \<and> filterRow 2 4 ''John Smith'' ''Box Hill'' ''North End'' (Some 20)
       \<notin> set (getRecords lowerASCII filterExample (Some fullFilter))
   \<and> map recordId (getRecords lowerASCII townExample (Some (noFilters\<lparr>flt_town := Some ''X''\<rparr>)))
     = [4, 3, 1]
   \<and> map recordId (getRecords lowerASCII townExample
        (Some (noFilters\<lparr>flt_town := Some ''X'', flt_agentId := Some 3\<rparr>))) = [4, 1]
   \<and> set (getRecords lowerASCII
            (townExample\<lparr>records :=
               getRecords lowerASCII townExample (Some (noFilters\<lparr>flt_town := Some ''X''\<rparr>))\<rparr>)
            (Some (noFilters\<lparr>flt_agentId := Some 3\<rparr>)))
     = set (getRecords lowerASCII townExample
              (Some (noFilters\<lparr>flt_town := Some ''X'', flt_agentId := Some 3\<rparr>)))"
proof -
  have e0: "map recordId (getRecords lowerASCII filterExample (Some fullFilter)) = [1]"
    by code_simp
  have e1: "map recordId
              (getRecords lowerASCII filterExample (Some (fullFilter\<lparr>flt_agentId := None\<rparr>)))
            = [1, 2]"
    by code_simp
  have e2: "map recordId
              (getRecords lowerASCII filterExample (Some (fullFilter\<lparr>flt_search := None\<rparr>)))
            = [1, 3]"
    by code_simp
  have e3: "map recordId
              (getRecords lowerASCII filterExample (Some (fullFilter\<lparr>flt_startDate := None\<rparr>)))
            = [1, 4]"
    by code_simp
  have e4: "map recordId
              (getRecords lowerASCII filterExample (Some (fullFilter\<lparr>flt_endDate := None\<rparr>)))
            = [5, 1]"
    by code_simp
  have e5: "map recordId
              (getRecords lowerASCII filterExample (Some (fullFilter\<lparr>flt_town := None\<rparr>)))
            = [1, 6]"
    by code_simp
  have e6: "map recordId
              (getRecords lowerASCII filterExample (Some (fullFilter\<lparr>flt_area := None\<rparr>)))
            = [1, 7]"
    by code_simp
  have e7: "map recordId (getRecords lowerASCII filterExample
              (Some (fullFilter\<lparr>flt_startDate := None, flt_endDate := None\<rparr>))) = [8, 5, 1, 4]"
    by code_simp
  have t1: "map recordId
              (getRecords lowerASCII townExample (Some (noFilters\<lparr>flt_town := Some ''X''\<rparr>)))
            = [4, 3, 1]"
    by code_simp
  have t2: "map recordId (getRecords lowerASCII townExample
              (Some (noFilters\<lparr>flt_town := Some ''X'', flt_agentId := Some 3\<rparr>))) = [4, 1]"
    by code_simp
  have l1: "ilike lowerASCII (Some ''John Smith'') (''%'' @ ''smi'' @ ''%'')"
    by code_simp
  have l2: "ilike lowerASCII (Some ''Box Hill'') (''%'' @ ''X'' @ ''%'')"
    by code_simp
  have l3: "ilike lowerASCII (Some ''North End'') (''%'' @ ''north'' @ ''%'')"
    by code_simp
  have m1: "filterRow 1 3 ''John Smith'' ''Box Hill'' ''North End'' (Some 20)
              \<in> set (records filterExample)"
    by (simp add: filterExample_def)
  note w1 = getRecords_truthy_filters
      [where r = "filterRow 1 3 ''John Smith'' ''Box Hill'' ''North End'' (Some 20)"
         and lower = lowerASCII and db = filterExample and f = fullFilter
         and filters = "Some fullFilter" and x = "''X''" and a = 3]
  note w2 = getRecords_truthy_filters
      [where r = "filterRow 2 4 ''John Smith'' ''Box Hill'' ''North End'' (Some 20)"
         and lower = lowerASCII and db = townExample and f = fullFilter
         and filters = "Some fullFilter" and x = "''X''" and a = 3]
  note w3 = getRecords_truthy_filters
      [where r = "filterRow 2 4 ''John Smith'' ''Box Hill'' ''North End'' (Some 20)"
         and lower = lowerASCII and db = filterExample and f = fullFilter
         and filters = "Some fullFilter" and x = "''X''" and a = 3]
  have in1: "filterRow 1 3 ''John Smith'' ''Box Hill'' ''North End'' (Some 20)
               \<in> set (getRecords lowerASCII filterExample (Some fullFilter))"
    using w1 m1 l1 l2 l3 by (simp add: fullFilter_def filterRow_def)
  have out2: "filterRow 2 4 ''John Smith'' ''Box Hill'' ''North End'' (Some 20)
               \<notin> set (getRecords lowerASCII filterExample (Some fullFilter))"
    using w3 by (simp add: fullFilter_def filterRow_def)
  have c: "set (getRecords lowerASCII
            (townExample\<lparr>records :=
               getRecords lowerASCII townExample (Some (noFilters\<lparr>flt_town := Some ''X''\<rparr>))\<rparr>)
            (Some (noFilters\<lparr>flt_agentId := Some 3\<rparr>)))
     = set (getRecords lowerASCII townExample
              (Some (noFilters\<lparr>flt_town := Some ''X'', flt_agentId := Some 3\<rparr>)))"
    using w2 by blast
  from e0 e1 e2 e3 e4 e5 e6 e7 in1 out2 t1 t2 c show ?thesis by blast
qed

text \<open>
  A filter that is present with the agent id 0 is not applied: no record of the table has
  the collector 0, and all four records are returned.
\<close>

theorem getRecords_agentId_zero:
  "flt_agentId (noFilters\<lparr>flt_agentId := Some 0\<rparr>) = Some 0
   \<and> map collectedBy (records townExample) = [3, 3, 4, 3]
   \<and> map recordId (getRecords lowerASCII townExample (Some (noFilters\<lparr>flt_agentId := Some 0\<rparr>)))
     = [4, 3, 2, 1]"
proof -
  have a: "flt_agentId (noFilters\<lparr>flt_agentId := Some 0\<rparr>) = Some 0"
    by simp
  have b: "map collectedBy (records townExample) = [3, 3, 4, 3]"
    by code_simp
  have c: "map recordId
             (getRecords lowerASCII townExample (Some (noFilters\<lparr>flt_agentId := Some 0\<rparr>)))
           = [4, 3, 2, 1]"
    by code_simp
  from a b c show ?thesis by blast
qed

section \<open>The statistics\<close>

lemma sum_bump: "sum_list (map snd (bump k obj)) = Suc (sum_list (map snd obj))"
  by (induction obj) auto

lemma fst_fold_countRecord:
  "fst (fold (countRecord env p) rs acc) = fold (\<lambda>r. bump (collectedBy r)) rs (fst acc)"
  by (induction rs arbitrary: acc) (auto simp: countRecord_def Let_def split: option.splits)

lemma sum_fold_bump:
  "sum_list (map snd (fold (\<lambda>r. bump (collectedBy r)) rs obj))
   = sum_list (map snd obj) + length rs"
  by (induction rs arbitrary: obj) (auto simp: sum_bump)

lemma sum_insort_key:
  "sum_list (map g (insort_key f x xs)) = (g x :: nat) + sum_list (map g xs)"
  by (induction xs) auto

lemma sum_sort_key: "sum_list (map g (sort_key f xs)) = sum_list (map (g :: _ \<Rightarrow> nat) xs)"
  by (induction xs) (auto simp: sum_insort_key)

lemma sum_filter_split:
  "sum_list (map g (filter P xs)) + sum_list (map g (filter (\<lambda>x. \<not> P x) xs))
   = sum_list (map (g :: _ \<Rightarrow> nat) xs)"
  by (induction xs) auto

lemma sum_entriesInt: "sum_list (map snd (entriesInt obj)) = sum_list (map snd obj)"
  by (simp add: entriesInt_def sum_sort_key sum_filter_split)

text \<open>
  Claim C4. For every table of records and every period, \<open>totalRecords\<close> is the number of
  all records of the table (\<open>getStats\<close> takes no filter), and the counts of
  \<open>recordsPerAgent\<close> add up to it.
\<close>

theorem getStats_totalRecords:
  "totalRecords (getStats env db period) = length (records db)
   \<and> sum_list (map count (recordsPerAgent (getStats env db period)))
     = totalRecords (getStats env db period)"
  by (simp add: getStats_def Let_def comp_def sum_entriesInt fst_fold_countRecord sum_fold_bump)

theorem getStats_totalRecords_witness:
  "totalRecords (getStats (envAt 0) statsExample (Some month)) = 3
   \<and> map count (recordsPerAgent (getStats (envAt 0) statsExample (Some month))) = [2, 1]"
proof -
  have e: "map count (recordsPerAgent (getStats (envAt 0) statsExample (Some month))) = [2, 1]"
    by code_simp
  have l: "length (records statsExample) = 3"
    by (simp add: statsExample_def)
  show ?thesis
    using e l getStats_totalRecords [of "envAt 0" statsExample "Some month"] by simp
qed

lemma map_of_bump:
  "map_of (bump k obj) = (map_of obj)(k \<mapsto> (case map_of obj k of None \<Rightarrow> 1 | Some v \<Rightarrow> v + 1))"
  by (induction obj) (auto simp: fun_eq_iff)

lemma keys_bump: "fst ` set (bump k obj) = insert k (fst ` set obj)"
  by (induction obj) force+

lemma distinct_bump: "distinct (map fst obj) \<Longrightarrow> distinct (map fst (bump k obj))"
proof (induction obj)
  case Nil
  then show ?case by simp
next
  case (Cons e obj)
  have "fst ` set (bump k obj) = insert k (fst ` set obj)" by (rule keys_bump)
  with Cons show ?case by (cases e) auto
qed

text \<open>
  The invariant of the counting loop: after the records \<open>seen\<close>, the object holds one
  key for each collector among them, with the number of that collector's records.
\<close>

lemma fold_bump_counts:
  assumes "distinct (map fst obj)"
      and "\<And>k. map_of obj k =
             (if filter (\<lambda>r. collectedBy r = k) seen = [] then None
              else Some (length (filter (\<lambda>r. collectedBy r = k) seen)))"
  shows "distinct (map fst (fold (\<lambda>r. bump (collectedBy r)) rs obj))
       \<and> (\<forall>k. map_of (fold (\<lambda>r. bump (collectedBy r)) rs obj) k
              = (if filter (\<lambda>r. collectedBy r = k) (seen @ rs) = [] then None
                 else Some (length (filter (\<lambda>r. collectedBy r = k) (seen @ rs)))))"
  using assms
proof (induction rs arbitrary: obj seen)
  case Nil
  then show ?case by simp
next
  case (Cons r rs)
  have d: "distinct (map fst (bump (collectedBy r) obj))"
    using Cons.prems(1) by (rule distinct_bump)
  have m: "\<And>k. map_of (bump (collectedBy r) obj) k
             = (if filter (\<lambda>r. collectedBy r = k) (seen @ [r]) = [] then None
                else Some (length (filter (\<lambda>r. collectedBy r = k) (seen @ [r]))))"
    using Cons.prems(2) by (auto simp: map_of_bump)
  from Cons.IH [OF d m] show ?case by simp
qed

lemma agentCounts_of_records:
  "distinct (map fst (fst (fold (countRecord env p) rs ([], []))))
   \<and> (\<forall>k v. ((k, v) \<in> set (fst (fold (countRecord env p) rs ([], []))))
        = (filter (\<lambda>r. collectedBy r = k) rs \<noteq> []
           \<and> v = length (filter (\<lambda>r. collectedBy r = k) rs)))"
proof -
  let ?ac = "fold (\<lambda>r. bump (collectedBy r)) rs []"
  have c: "distinct (map fst ?ac)
       \<and> (\<forall>k. map_of ?ac k
              = (if filter (\<lambda>r. collectedBy r = k) ([] @ rs) = [] then None
                 else Some (length (filter (\<lambda>r. collectedBy r = k) ([] @ rs)))))"
    by (rule fold_bump_counts) simp_all
  then have d: "distinct (map fst ?ac)" by simp
  have "\<And>k v. ((k, v) \<in> set ?ac) = (map_of ?ac k = Some v)"
    using map_of_eq_Some_iff [OF d] by simp
  with c show ?thesis
    by (auto simp: fst_fold_countRecord)
qed

lemma set_entriesInt: "set (entriesInt obj) = set obj"
  by (auto simp: entriesInt_def)

lemma length_entriesInt: "length (entriesInt obj) = length obj"
  by (simp add: entriesInt_def sum_length_filter_compl)

lemma distinct_entriesInt:
  assumes "distinct (map fst obj)"
  shows "distinct (map fst (entriesInt obj))"
proof -
  have "card (set (map fst (entriesInt obj))) = card (set (map fst obj))"
    by (simp add: set_entriesInt)
  also have "\<dots> = length (map fst obj)"
    using assms by (rule distinct_card)
  also have "\<dots> = length (map fst (entriesInt obj))"
    by (simp add: length_entriesInt)
  finally show ?thesis by (rule card_distinct)
qed

text \<open>The map of agent names holds the name of the last user of role agent with the id.\<close>

lemma agentMapOf_find:
  "agentMapOf (filter (\<lambda>u. role u = Agent) us) i
   = map_option fullName (find (\<lambda>u. role u = Agent \<and> userId u = i) (rev us))"
proof -
  have "\<And>xs. map_of (map (\<lambda>a. (userId a, fullName a)) (filter (\<lambda>u. role u = Agent) xs)) i
          = map_option fullName (find (\<lambda>u. role u = Agent \<and> userId u = i) xs)"
    subgoal for xs by (induction xs) auto
    done
  then show ?thesis
    by (simp add: agentMapOf_def rev_map rev_filter)
qed

text \<open>
  Claim C7, as amended. \<open>recordsPerAgent\<close> has exactly one entry for each \<open>collectedBy\<close>
  value among the records, with the number of records of that value as its count. Its
  name is the full name of the user of role agent with that id, when there is one and
  the name is not empty; otherwise it is the label \<open>Agent #\<close> followed by the id.
\<close>

theorem getStats_recordsPerAgent:
  "distinct (map agentId (recordsPerAgent (getStats env db period)))
   \<and> set (map agentId (recordsPerAgent (getStats env db period))) = collectedBy ` set (records db)
   \<and> (\<forall>e \<in> set (recordsPerAgent (getStats env db period)).
        count e = length (filter (\<lambda>r. collectedBy r = agentId e) (records db))
        \<and> agentName e =
            (case find (\<lambda>u. role u = Agent \<and> userId u = agentId e) (rev (users db)) of
               None \<Rightarrow> ''Agent #'' @ showInt (agentId e)
             | Some u \<Rightarrow>
                 if fullName u = [] then ''Agent #'' @ showInt (agentId e) else fullName u))"
proof -
  let ?ac = "fst (fold (countRecord env (case period of None \<Rightarrow> day | Some p \<Rightarrow> p))
                 (records db) ([], []))"
  let ?am = "agentMapOf (filter (\<lambda>u. role u = Agent) (users db))"
  have rpa: "recordsPerAgent (getStats env db period)
             = map (\<lambda>e. \<lparr> agentId = fst e, agentName = agentNameOf ?am (fst e), count = snd e \<rparr>)
                 (entriesInt ?ac)"
    by (simp add: getStats_def Let_def)
  have ids: "map agentId (recordsPerAgent (getStats env db period)) = map fst (entriesInt ?ac)"
    by (simp add: rpa comp_def)
  have ac: "distinct (map fst ?ac)"
    and mem: "\<And>k v. ((k, v) \<in> set ?ac)
        = (filter (\<lambda>r. collectedBy r = k) (records db) \<noteq> []
           \<and> v = length (filter (\<lambda>r. collectedBy r = k) (records db)))"
    using agentCounts_of_records [of env _ "records db"] by blast+
  have d: "distinct (map agentId (recordsPerAgent (getStats env db period)))"
    using ac by (simp add: ids distinct_entriesInt)
  have "fst ` set ?ac = collectedBy ` set (records db)"
  proof (intro set_eqI iffI)
    fix k assume "k \<in> fst ` set ?ac"
    then obtain v where "(k, v) \<in> set ?ac" by auto
    then have "filter (\<lambda>r. collectedBy r = k) (records db) \<noteq> []" by (simp add: mem)
    then show "k \<in> collectedBy ` set (records db)"
      by (auto simp: filter_empty_conv)
  next
    fix k assume "k \<in> collectedBy ` set (records db)"
    then have "filter (\<lambda>r. collectedBy r = k) (records db) \<noteq> []"
      by (auto simp: filter_empty_conv)
    then have "(k, length (filter (\<lambda>r. collectedBy r = k) (records db))) \<in> set ?ac"
      by (simp add: mem)
    then show "k \<in> fst ` set ?ac" by force
  qed
  then have s: "set (map agentId (recordsPerAgent (getStats env db period)))
                = collectedBy ` set (records db)"
    by (simp add: ids set_entriesInt)
  have e: "\<forall>e \<in> set (recordsPerAgent (getStats env db period)).
        count e = length (filter (\<lambda>r. collectedBy r = agentId e) (records db))
        \<and> agentName e =
            (case find (\<lambda>u. role u = Agent \<and> userId u = agentId e) (rev (users db)) of
               None \<Rightarrow> ''Agent #'' @ showInt (agentId e)
             | Some u \<Rightarrow>
                 if fullName u = [] then ''Agent #'' @ showInt (agentId e) else fullName u)"
  proof
    fix e assume "e \<in> set (recordsPerAgent (getStats env db period))"
    then obtain k v where kv: "(k, v) \<in> set ?ac"
      and e: "e = \<lparr> agentId = k, agentName = agentNameOf ?am k, count = v \<rparr>"
      by (auto simp: rpa set_entriesInt)
    from kv have "v = length (filter (\<lambda>r. collectedBy r = k) (records db))"
      by (simp add: mem)
    then show "count e = length (filter (\<lambda>r. collectedBy r = agentId e) (records db))
        \<and> agentName e =
            (case find (\<lambda>u. role u = Agent \<and> userId u = agentId e) (rev (users db)) of
               None \<Rightarrow> ''Agent #'' @ showInt (agentId e)
             | Some u \<Rightarrow>
                 if fullName u = [] then ''Agent #'' @ showInt (agentId e) else fullName u)"
      by (simp add: e agentNameOf_def agentMapOf_find split: option.splits)
  qed
  from d s e show ?thesis by blast
qed

theorem getStats_recordsPerAgent_witness:
  "recordsPerAgent (getStats (envAt 0) statsExample None)
   = [\<lparr> agentId = 2, agentName = ''John Doe'', count = 2 \<rparr>,
      \<lparr> agentId = 7, agentName = ''Agent #7'', count = 1 \<rparr>]
   \<and> distinct (map agentId (recordsPerAgent (getStats (envAt 0) statsExample None)))
   \<and> collectedBy ` set (records statsExample) = {2, 7}"
proof -
  have e: "recordsPerAgent (getStats (envAt 0) statsExample None)
           = [\<lparr> agentId = 2, agentName = ''John Doe'', count = 2 \<rparr>,
              \<lparr> agentId = 7, agentName = ''Agent #7'', count = 1 \<rparr>]"
    by code_simp
  show ?thesis
    using getStats_recordsPerAgent [of "envAt 0" statsExample None]
    by (simp add: e)
qed

text \<open>
  A record that the admin created in their own name is counted under the label
  \<open>Agent #1\<close>, although user 1, the admin, exists and has a name.
\<close>

theorem getStats_admin_collector:
  "map collectedBy (records adminRecordDb) = [1]
   \<and> getUser adminRecordDb 1 = Some adminUser
   \<and> fullName adminUser = ''System Administrator''
   \<and> recordsPerAgent (getStats (envAt 0) adminRecordDb None)
     = [\<lparr> agentId = 1, agentName = ''Agent #1'', count = 1 \<rparr>]"
proof -
  have r: "map collectedBy (records adminRecordDb) = [1]"
    by code_simp
  have u: "getUser adminRecordDb 1 = Some adminUser"
    by code_simp
  have n: "fullName adminUser = ''System Administrator''"
    by (simp add: adminUser_def)
  have s: "recordsPerAgent (getStats (envAt 0) adminRecordDb None)
           = [\<lparr> agentId = 1, agentName = ''Agent #1'', count = 1 \<rparr>]"
    by code_simp
  from r u n s show ?thesis by simp
qed

section \<open>The week buckets\<close>

lemma div_bounds:
  assumes "0 < k"
  shows "k * (x div k) \<le> (x::int)" and "x < k * (x div k) + k"
proof -
  have e: "x = k * (x div k) + x mod k" by simp
  have m: "0 \<le> x mod k" "x mod k < k" using assms by simp_all
  show "k * (x div k) \<le> x" using e m by linarith
  show "x < k * (x div k) + k" using e m by linarith
qed

lemma DayFromYear_bounds:
  "146097 * (y - 1970) - 607 \<le> 400 * DayFromYear y"
  "400 * DayFromYear y \<le> 146097 * (y - 1970) + 593"
proof -
  define a where "a = (y - 1969) div 4"
  define b where "b = (y - 1901) div 100"
  define c where "c = (y - 1601) div 400"
  have a: "4 * a \<le> y - 1969" "y - 1969 < 4 * a + 4"
    unfolding a_def by (rule div_bounds, simp)+
  have b: "100 * b \<le> y - 1901" "y - 1901 < 100 * b + 100"
    unfolding b_def by (rule div_bounds, simp)+
  have c: "400 * c \<le> y - 1601" "y - 1601 < 400 * c + 400"
    unfolding c_def by (rule div_bounds, simp)+
  have d: "DayFromYear y = 365 * (y - 1970) + a - b + c"
    by (simp add: DayFromYear_def a_def b_def c_def)
  show "146097 * (y - 1970) - 607 \<le> 400 * DayFromYear y"
    using a b c d by (simp add: algebra_simps)
  show "400 * DayFromYear y \<le> 146097 * (y - 1970) + 593"
    using a b c d by (simp add: algebra_simps)
qed

text \<open>\<open>YearFromDay\<close> is the year of the day: the year begins on or before it, the next after it.\<close>

lemma YearFromDay_spec:
  "DayFromYear (YearFromDay d) \<le> d \<and> d < DayFromYear (YearFromDay d + 1)"
proof -
  define y0 where "y0 = 1970 + (400 * d) div 146097"
  have "146097 * ((400 * d) div 146097) \<le> 400 * d"
       "400 * d < 146097 * ((400 * d) div 146097) + 146097"
    by (rule div_bounds, simp)+
  then have e: "146097 * (y0 - 1970) \<le> 400 * d" "400 * d < 146097 * (y0 - 1970) + 146097"
    by (simp_all add: y0_def)
  have lo: "DayFromYear (y0 - 1) \<le> d"
    using DayFromYear_bounds(2) [of "y0 - 1"] e by (simp add: algebra_simps)
  have hi: "d < DayFromYear (y0 + 2)"
    using DayFromYear_bounds(1) [of "y0 + 2"] e by (simp add: algebra_simps)
  have y: "YearFromDay d =
             (if d < DayFromYear y0 then y0 - 1
              else if DayFromYear (y0 + 1) \<le> d then y0 + 1 else y0)"
    by (simp add: YearFromDay_def Let_def y0_def)
  show ?thesis
    using lo hi by (simp add: y add.assoc)
qed

lemma MonthFromTime_range: "0 \<le> MonthFromTime t \<and> MonthFromTime t \<le> 11"
  by (simp add: MonthFromTime_def Let_def)

lemma MakeDay_same_month:
  "MakeDay (YearFromTime t) (MonthFromTime t) dt = Day t - DateFromTime t + dt"
proof -
  have "MonthFromTime t div 12 = 0" "MonthFromTime t mod 12 = MonthFromTime t"
    using MonthFromTime_range [of t] by simp_all
  then show ?thesis
    by (simp add: MakeDay_def DateFromTime_def DayWithinYear_def InLeapYear_def Let_def)
qed

lemma Day_TimeWithinDay: "Day t * msPerDay + TimeWithinDay t = t"
  by (simp add: Day_def TimeWithinDay_def)

text \<open>
  \<open>setDate\<close> with the local day of the month less \<open>k\<close> moves the date back by \<open>k\<close> days,
  in every time zone.
\<close>

lemma setDate_back:
  "setDate env d (getDate env d - k) = d - k * msPerDay"
proof -
  let ?t = "LocalTime env d"
  have "MakeDate (MakeDay (YearFromTime ?t) (MonthFromTime ?t) (DateFromTime ?t - k))
          (TimeWithinDay ?t)
        = (Day ?t - k) * msPerDay + TimeWithinDay ?t"
    by (simp add: MakeDate_def MakeDay_same_month)
  also have "\<dots> = ?t - k * msPerDay"
    using Day_TimeWithinDay [of ?t] by (simp add: algebra_simps)
  finally show ?thesis
    by (simp add: setDate_def getDate_def Let_def UTC_def LocalTime_def)
qed

text \<open>
  The key of a week is the UTC date of the instant that lies as many days before the
  record as the local day of the week says.
\<close>

lemma dateKey_week:
  "dateKey env week d = ''W '' @ splitT0 (toISOString (d - getDay env d * msPerDay))"
  by (simp add: dateKey_def Let_def setDate_back)

lemma Day_back: "Day (d - k * msPerDay) = Day d - k"
  by (simp add: Day_def msPerDay_def)

text \<open>
  On a server whose local time is UTC the key of a week names the Sunday that starts the
  week of the record: the day of the key is a Sunday (day 0 of the week), at most six
  days before the day of the record.
\<close>

lemma week_start_UTC:
  assumes "localTZA env = 0"
  shows "dateKey env week d = ''W '' @ dateKey env day (d - WeekDay d * msPerDay)"
    and "WeekDay (d - WeekDay d * msPerDay) = 0"
    and "Day (d - WeekDay d * msPerDay) = Day d - WeekDay d"
    and "0 \<le> WeekDay d \<and> WeekDay d \<le> 6"
proof -
  have g: "getDay env d = WeekDay d"
    using assms by (simp add: getDay_def LocalTime_def)
  show "dateKey env week d = ''W '' @ dateKey env day (d - WeekDay d * msPerDay)"
    by (simp add: dateKey_week g) (simp add: dateKey_def)
  show "Day (d - WeekDay d * msPerDay) = Day d - WeekDay d"
    by (rule Day_back)
  show "WeekDay (d - WeekDay d * msPerDay) = 0"
    unfolding WeekDay_def Day_back by presburger
  show "0 \<le> WeekDay d \<and> WeekDay d \<le> 6"
    by (simp add: WeekDay_def)
qed

text \<open>The three records of the example, on a server whose local time is UTC.\<close>

lemma getStats_week_UTC:
  "recordsByPeriod (getStats (envAt 0) weekExample (Some week))
   = [\<lparr> date = ''W 2023-12-31'', periodCount = 2 \<rparr>,
      \<lparr> date = ''W 2024-01-07'', periodCount = 1 \<rparr>]"
  by code_simp

lemma weekExample_dates:
  "map toISOString [1704103200000, 1704150000000, 1704690000000]
   = [''2024-01-01T10:00:00.000Z'', ''2024-01-01T23:00:00.000Z'', ''2024-01-08T05:00:00.000Z'']"
  by code_simp

lemma weekExample_east:
  "recordsByPeriod (getStats (envAt 7200000) weekExample (Some week))
   = [\<lparr> date = ''W 2023-12-30'', periodCount = 1 \<rparr>,
      \<lparr> date = ''W 2023-12-31'', periodCount = 1 \<rparr>,
      \<lparr> date = ''W 2024-01-07'', periodCount = 1 \<rparr>]"
  by code_simp

text \<open>
  Claim C5. The week key is to be the date of the Sunday that starts the record's week,
  and the three records of the example are to fall into two buckets of 2 and 1. The
  handler takes the day of the week and the day of the month in local time and prints the
  result in UTC. On a server two hours east of UTC the record of 2024-01-01 23:00 UTC
  (a local Tuesday, 01:00) is moved back two days to 2023-12-30 23:00 UTC, a Saturday, so
  the three records fall into three buckets of one record each.
\<close>

theorem getStats_week_two_hours_east:
  "localTZA (envAt 7200000) = 7200000
   \<and> map createdAt (records weekExample)
     = [Some 1704103200000, Some 1704150000000, Some 1704690000000]
   \<and> map toISOString [1704103200000, 1704150000000, 1704690000000]
     = [''2024-01-01T10:00:00.000Z'', ''2024-01-01T23:00:00.000Z'', ''2024-01-08T05:00:00.000Z'']
   \<and> recordsByPeriod (getStats (envAt 7200000) weekExample (Some week))
     = [\<lparr> date = ''W 2023-12-30'', periodCount = 1 \<rparr>,
        \<lparr> date = ''W 2023-12-31'', periodCount = 1 \<rparr>,
        \<lparr> date = ''W 2024-01-07'', periodCount = 1 \<rparr>]
   \<and> getDay (envAt 7200000) 1704150000000 = 2
   \<and> setDate (envAt 7200000) 1704150000000
       (getDate (envAt 7200000) 1704150000000 - getDay (envAt 7200000) 1704150000000)
     = 1703977200000
   \<and> toISOString 1703977200000 = ''2023-12-30T23:00:00.000Z''
   \<and> WeekDay 1703977200000 = 6"
proof -
  have z: "localTZA (envAt 7200000) = 7200000"
    by (simp add: envAt_def)
  have g: "getDay (envAt 7200000) 1704150000000 = 2"
    by (simp add: getDay_def LocalTime_def envAt_def WeekDay_def Day_def msPerDay_def)
  have s: "setDate (envAt 7200000) 1704150000000
             (getDate (envAt 7200000) 1704150000000 - getDay (envAt 7200000) 1704150000000)
           = 1703977200000"
    by (simp add: setDate_back g msPerDay_def)
  have i: "toISOString 1703977200000 = ''2023-12-30T23:00:00.000Z''"
    by code_simp
  have c: "map createdAt (records weekExample)
           = [Some 1704103200000, Some 1704150000000, Some 1704690000000]"
    by (simp add: weekExample_def emptyDb_def recordAt_def)
  have w: "WeekDay 1703977200000 = 6"
    by (simp add: WeekDay_def Day_def msPerDay_def)
  from z c g s i w weekExample_dates weekExample_east show ?thesis by simp
qed

end
